theory Spec2Isabelle
  imports Main
begin

section \<open>JavaScript values and string helpers\<close>

text \<open>
  The numbers the program handles are integers: control values come from \<open>parseInt\<close>,
  and the range arithmetic adds and multiplies integers. They are modelled as \<open>int\<close>.
  A number that JavaScript would print as \<open>NaN\<close> or \<open>undefined\<close> (the result of
  \<open>Number\<close> or \<open>parseInt\<close> on text that is no numeral, or a missing array element)
  is \<open>None\<close> of \<open>int option\<close>.
\<close>

text \<open>\<open>a || b\<close> on numbers: \<open>0\<close> is falsy.\<close>

definition orElse :: "int \<Rightarrow> int \<Rightarrow> int" where
  "orElse a b = (if a = 0 then b else a)"

text \<open>\<open>a || b\<close> on an optional number: \<open>undefined\<close> and \<open>0\<close> are falsy.\<close>

definition optOrElse :: "int option \<Rightarrow> int \<Rightarrow> int" where
  "optOrElse a b = (case a of None \<Rightarrow> b | Some v \<Rightarrow> orElse v b)"

text \<open>\<open>xs[i]\<close>: \<open>undefined\<close> (here \<open>None\<close>) outside the array.\<close>

definition at :: "'a list \<Rightarrow> int \<Rightarrow> 'a option" where
  "at xs i = (if 0 \<le> i \<and> i < int (length xs) then Some (xs ! nat i) else None)"

text \<open>\<open>xs.indexOf(v)\<close>: the first position of \<open>v\<close>, or \<open>-1\<close>.\<close>

fun indexOf :: "'a list \<Rightarrow> 'a \<Rightarrow> int" where
  "indexOf [] v = - 1"
| "indexOf (x # xs) v =
     (if x = v then 0 else (if indexOf xs v < 0 then - 1 else indexOf xs v + 1))"

fun startsWith :: "string \<Rightarrow> string \<Rightarrow> bool" where
  "startsWith s [] = True"
| "startsWith [] (p # ps) = False"
| "startsWith (c # cs) (p # ps) = (c = p \<and> startsWith cs ps)"

text \<open>\<open>s.includes(pat)\<close>.\<close>

fun includesStr :: "string \<Rightarrow> string \<Rightarrow> bool" where
  "includesStr [] pat = (pat = [])"
| "includesStr (c # cs) pat = (startsWith (c # cs) pat \<or> includesStr cs pat)"

text \<open>\<open>xs.join(sep)\<close>.\<close>

fun join :: "string \<Rightarrow> string list \<Rightarrow> string" where
  "join sep [] = []"
| "join sep [x] = x"
| "join sep (x # y # ys) = x @ sep @ join sep (y # ys)"

text \<open>\<open>s.split(c)\<close> for a separator of one character.\<close>

fun split :: "char \<Rightarrow> string \<Rightarrow> string list" where
  "split sep [] = [[]]"
| "split sep (c # cs) =
     (if c = sep then [] # split sep cs
      else (case split sep cs of [] \<Rightarrow> [[c]] | p # ps \<Rightarrow> (c # p) # ps))"

text \<open>\<open>s.replace(pat, rep)\<close> with a string pattern: the first occurrence only.\<close>

fun replace :: "string \<Rightarrow> string \<Rightarrow> string \<Rightarrow> string" where
  "replace [] pat rep = (if pat = [] then rep else [])"
| "replace (c # cs) pat rep =
     (if startsWith (c # cs) pat then rep @ drop (length pat) (c # cs)
      else c # replace cs pat rep)"

definition digitOf :: "char \<Rightarrow> nat option" where
  "digitOf c = (let i = indexOf ''0123456789'' c in if i < 0 then None else Some (nat i))"

fun digitsValue :: "nat \<Rightarrow> string \<Rightarrow> nat" where
  "digitsValue acc [] = acc"
| "digitsValue acc (c # cs) =
     (case digitOf c of None \<Rightarrow> acc | Some d \<Rightarrow> digitsValue (10 * acc + d) cs)"

definition isDigit :: "char \<Rightarrow> bool" where
  "isDigit c = (digitOf c \<noteq> None)"

text \<open>
  \<open>Number(s)\<close> on the strings the program passes to it (pieces of a resolution label):
  the empty string is \<open>0\<close>, a run of decimal digits is its value, and anything else
  is \<open>NaN\<close>. (Signs, white space, exponents and hexadecimal forms do not occur in
  the option labels and are read as \<open>NaN\<close> here.)
\<close>

definition Number :: "string \<Rightarrow> int option" where
  "Number s = (if list_all isDigit s then Some (int (digitsValue 0 s)) else None)"

text \<open>
  \<open>parseInt(s)\<close>: the value of the leading run of decimal digits, \<open>NaN\<close> when there
  is none. (Leading white space and signs do not occur in the option labels.)
\<close>

definition parseInt :: "string \<Rightarrow> int option" where
  "parseInt s =
     (case s of [] \<Rightarrow> None
      | c # cs \<Rightarrow> if isDigit c then Some (int (digitsValue 0 (takeWhile isDigit s))) else None)"

function showNat :: "nat \<Rightarrow> string" where
  "showNat n =
     (if n < 10 then [''0123456789'' ! n]
      else showNat (n div 10) @ [''0123456789'' ! (n mod 10)])"
  by pat_completeness auto
termination
  by (relation "measure id") auto

text \<open>A number inside a template literal: \<^verbatim>\<open>`${n}`\<close>.\<close>

definition showInt :: "int \<Rightarrow> string" where
  "showInt i = (if i < 0 then CHR ''-'' # showNat (nat (- i)) else showNat (nat i))"

section \<open>The device backend (webcam.ts)\<close>

record WebcamSettings =
  brightness :: int
  contrast :: int
  saturation :: int
  sharpness :: int
  gain :: int
  autoExposure :: bool
  autoFocus :: bool
  autoWhiteBalance :: bool
  powerLineFrequency :: int
  exposureValue :: int
  focusValue :: int
  whiteBalanceValue :: int

text \<open>
  \<open>frameRate\<close> is read with \<open>parseFloat\<close>; the model covers the whole-number rates.
\<close>

record VideoFormat =
  width :: int
  height :: int
  pixelFormat :: string
  frameRate :: int

subsection \<open>The command line tool\<close>

text \<open>
  Every access to the camera is one \<open>execSync\<close> of \<open>v4l2-ctl\<close>. The commands the
  controller issues (the device path is fixed):
\<close>

datatype cmd =
    GetCtrl string
  | GetFmtVideo
  | GetParm
  | ListCtrls
  | SetCtrl string int
  | SetFmtVideo "int option" "int option" string
  | SetParm "int option"

text \<open>
  What a command prints. Beside the raw text, the record holds what the controller's
  own parsers extract from it, so that the text format of the tool stays outside the
  model: \<open>ctrlValue\<close> is \<open>parseInt(result.split(' ')[1])\<close> (\<open>None\<close> for \<open>NaN\<close>),
  \<open>widthHeight\<close> the two groups of the \<open>Width/Height\<close> pattern, \<open>pixelTag\<close> the group
  of the \<open>Pixel Format\<close> pattern and \<open>framesPerSecond\<close> the number after
  \<open>Frames per second:\<close>; each is \<open>None\<close> when its pattern does not match.
\<close>

record stdout =
  raw :: string
  ctrlValue :: "int option"
  widthHeight :: "(int \<times> int) option"
  pixelTag :: "string option"
  framesPerSecond :: "int option"

text \<open>
  \<open>execSync\<close> returns the output or throws; \<open>Threw msg\<close> carries the text the
  handlers inspect, \<open>error.stderr?.toString() || error.message || ''\<close>.
\<close>

datatype exec_out = Returned stdout | Threw string

text \<open>
  The camera and the tool are outside the program: they are a parameter \<open>sh\<close>, which
  answers a command in a device state and gives the next device state. The world the
  program runs in is the device state and the list of commands executed so far.
\<close>

type_synonym 'w shell = "'w \<Rightarrow> cmd \<Rightarrow> exec_out \<times> 'w"

type_synonym 'w world = "'w \<times> cmd list"

definition execSync :: "'w shell \<Rightarrow> cmd \<Rightarrow> 'w world \<Rightarrow> exec_out \<times> 'w world" where
  "execSync sh c W = (fst (sh (fst W) c), (snd (sh (fst W) c), snd W @ [c]))"

subsection \<open>Reading the device\<close>

text \<open>The local \<open>getControl\<close> of \<open>getCurrentSettings\<close>.\<close>

definition getControl :: "'w shell \<Rightarrow> string \<Rightarrow> 'w world \<Rightarrow> int \<times> 'w world" where
  "getControl sh control W =
     (let r = execSync sh (GetCtrl control) W in
      (case fst r of
         Returned out \<Rightarrow> (case ctrlValue out of None \<Rightarrow> 0 | Some n \<Rightarrow> orElse n 0)
       | Threw msg \<Rightarrow> 0,
       snd r))"

definition getCurrentSettings :: "'w shell \<Rightarrow> 'w world \<Rightarrow> WebcamSettings \<times> 'w world" where
  "getCurrentSettings sh W =
     (let r1 = getControl sh ''brightness'' W;
          r2 = getControl sh ''contrast'' (snd r1);
          r3 = getControl sh ''saturation'' (snd r2);
          r4 = getControl sh ''sharpness'' (snd r3);
          r5 = getControl sh ''gain'' (snd r4);
          r6 = getControl sh ''auto_exposure'' (snd r5);
          r7 = getControl sh ''focus_automatic_continuous'' (snd r6);
          r8 = getControl sh ''white_balance_automatic'' (snd r7);
          r9 = getControl sh ''power_line_frequency'' (snd r8);
          r10 = getControl sh ''exposure_time_absolute'' (snd r9);
          r11 = getControl sh ''focus_absolute'' (snd r10);
          r12 = getControl sh ''white_balance_temperature'' (snd r11)
      in (\<lparr> brightness = orElse (fst r1) 128,
             contrast = orElse (fst r2) 128,
             saturation = orElse (fst r3) 128,
             sharpness = orElse (fst r4) 128,
             gain = orElse (fst r5) 0,
             autoExposure = (fst r6 = 3),
             autoFocus = (fst r7 = 1),
             autoWhiteBalance = (fst r8 = 1),
             powerLineFrequency = orElse (fst r9) 2,
             exposureValue = orElse (fst r10) 250,
             focusValue = orElse (fst r11) 0,
             whiteBalanceValue = orElse (fst r12) 4000 \<rparr>,
          snd r12))"

definition fallbackFormat :: VideoFormat where
  "fallbackFormat = \<lparr> width = 640, height = 480, pixelFormat = ''YUYV'', frameRate = 30 \<rparr>"

definition getCurrentVideoFormat :: "'w shell \<Rightarrow> 'w world \<Rightarrow> VideoFormat \<times> 'w world" where
  "getCurrentVideoFormat sh W =
     (let r1 = execSync sh GetFmtVideo W in
      case fst r1 of
        Threw msg \<Rightarrow> (fallbackFormat, snd r1)
      | Returned result \<Rightarrow>
          (let r2 = execSync sh GetParm (snd r1) in
           case fst r2 of
             Threw msg \<Rightarrow> (fallbackFormat, snd r2)
           | Returned parmResult \<Rightarrow>
               (\<lparr> width = (case widthHeight result of None \<Rightarrow> 640 | Some wh \<Rightarrow> fst wh),
                   height = (case widthHeight result of None \<Rightarrow> 480 | Some wh \<Rightarrow> snd wh),
                   pixelFormat = (case pixelTag result of None \<Rightarrow> ''YUYV'' | Some p \<Rightarrow> p),
                   frameRate = (case framesPerSecond parmResult of None \<Rightarrow> 30 | Some f \<Rightarrow> f) \<rparr>,
                snd r2)))"

record DeviceStatus =
  available :: bool
  inUse :: bool
  statusError :: "string option"

definition getDeviceStatus :: "'w shell \<Rightarrow> 'w world \<Rightarrow> DeviceStatus \<times> 'w world" where
  "getDeviceStatus sh W =
     (let r = execSync sh GetFmtVideo W in
      (case fst r of
         Returned out \<Rightarrow> \<lparr> available = True, inUse = False, statusError = None \<rparr>
       | Threw errorMsg \<Rightarrow>
           if includesStr errorMsg ''Device or resource busy''
           then \<lparr> available = True, inUse = True, statusError = None \<rparr>
           else if includesStr errorMsg ''No such file or directory''
           then \<lparr> available = False, inUse = False, statusError = Some ''Device not found'' \<rparr>
           else \<lparr> available = False, inUse = False, statusError = Some ''Unknown error'' \<rparr>,
       snd r))"

definition getDetailedInfo :: "'w shell \<Rightarrow> 'w world \<Rightarrow> string \<times> 'w world" where
  "getDetailedInfo sh W =
     (let r1 = execSync sh GetFmtVideo W in
      case fst r1 of
        Threw msg \<Rightarrow> (''Unable to retrieve detailed information'', snd r1)
      | Returned fmt \<Rightarrow>
          (let r2 = execSync sh GetParm (snd r1) in
           case fst r2 of
             Threw msg \<Rightarrow> (''Unable to retrieve detailed information'', snd r2)
           | Returned parm \<Rightarrow>
               (let r3 = execSync sh ListCtrls (snd r2) in
                case fst r3 of
                  Threw msg \<Rightarrow> (''Unable to retrieve detailed information'', snd r3)
                | Returned controls \<Rightarrow>
                    (''Video Format:'' @ [CHR 0x0A] @ raw fmt @ [CHR 0x0A] @
                     ''Frame Rate:'' @ [CHR 0x0A] @ raw parm @ [CHR 0x0A] @
                     ''All Controls:'' @ [CHR 0x0A] @ raw controls,
                     snd r3))))"

subsection \<open>Writing the device\<close>

definition setControl :: "'w shell \<Rightarrow> string \<Rightarrow> int \<Rightarrow> 'w world \<Rightarrow> bool \<times> 'w world" where
  "setControl sh control v W =
     (let r = execSync sh (SetCtrl control v) W in
      (case fst r of Returned out \<Rightarrow> True | Threw msg \<Rightarrow> False, snd r))"

definition setBrightness :: "'w shell \<Rightarrow> int \<Rightarrow> 'w world \<Rightarrow> bool \<times> 'w world" where
  "setBrightness sh v W = setControl sh ''brightness'' (max 0 (min 255 v)) W"

definition setContrast :: "'w shell \<Rightarrow> int \<Rightarrow> 'w world \<Rightarrow> bool \<times> 'w world" where
  "setContrast sh v W = setControl sh ''contrast'' (max 0 (min 255 v)) W"

definition setSaturation :: "'w shell \<Rightarrow> int \<Rightarrow> 'w world \<Rightarrow> bool \<times> 'w world" where
  "setSaturation sh v W = setControl sh ''saturation'' (max 0 (min 255 v)) W"

definition setSharpness :: "'w shell \<Rightarrow> int \<Rightarrow> 'w world \<Rightarrow> bool \<times> 'w world" where
  "setSharpness sh v W = setControl sh ''sharpness'' (max 0 (min 255 v)) W"

definition setGain :: "'w shell \<Rightarrow> int \<Rightarrow> 'w world \<Rightarrow> bool \<times> 'w world" where
  "setGain sh v W = setControl sh ''gain'' (max 0 (min 255 v)) W"

definition setAutoExposure :: "'w shell \<Rightarrow> bool \<Rightarrow> 'w world \<Rightarrow> bool \<times> 'w world" where
  "setAutoExposure sh enabled W = setControl sh ''auto_exposure'' (if enabled then 3 else 1) W"

definition setAutoFocus :: "'w shell \<Rightarrow> bool \<Rightarrow> 'w world \<Rightarrow> bool \<times> 'w world" where
  "setAutoFocus sh enabled W =
     setControl sh ''focus_automatic_continuous'' (if enabled then 1 else 0) W"

definition setAutoWhiteBalance :: "'w shell \<Rightarrow> bool \<Rightarrow> 'w world \<Rightarrow> bool \<times> 'w world" where
  "setAutoWhiteBalance sh enabled W =
     setControl sh ''white_balance_automatic'' (if enabled then 1 else 0) W"

definition setPowerLineFrequency :: "'w shell \<Rightarrow> int \<Rightarrow> 'w world \<Rightarrow> bool \<times> 'w world" where
  "setPowerLineFrequency sh frequency W =
     setControl sh ''power_line_frequency'' (max 0 (min 2 frequency)) W"

definition setExposureValue :: "'w shell \<Rightarrow> int \<Rightarrow> 'w world \<Rightarrow> bool \<times> 'w world" where
  "setExposureValue sh v W = setControl sh ''exposure_time_absolute'' (max 3 (min 2047 v)) W"

definition setFocusValue :: "'w shell \<Rightarrow> int \<Rightarrow> 'w world \<Rightarrow> bool \<times> 'w world" where
  "setFocusValue sh v W = setControl sh ''focus_absolute'' (max 0 (min 250 v)) W"

definition setWhiteBalanceValue :: "'w shell \<Rightarrow> int \<Rightarrow> 'w world \<Rightarrow> bool \<times> 'w world" where
  "setWhiteBalanceValue sh v W =
     setControl sh ''white_balance_temperature'' (max 2000 (min 6500 v)) W"

text \<open>The result \<open>{ success, error? }\<close> of the two format setters.\<close>

record SetResult =
  success :: bool
  error :: "string option"

text \<open>The \<open>try\<close>/\<open>catch\<close> shared by \<open>setVideoFormat\<close> and \<open>setFrameRate\<close>.\<close>

definition setOutcome :: "exec_out \<Rightarrow> SetResult" where
  "setOutcome r =
     (case r of
        Returned out \<Rightarrow> \<lparr> success = True, error = None \<rparr>
      | Threw errorMsg \<Rightarrow>
          if includesStr errorMsg ''Device or resource busy''
          then \<lparr> success = False, error = Some ''DEVICE_BUSY'' \<rparr>
          else \<lparr> success = False, error = Some ''UNKNOWN'' \<rparr>)"

definition setVideoFormat ::
  "'w shell \<Rightarrow> int option \<Rightarrow> int option \<Rightarrow> string \<Rightarrow> 'w world \<Rightarrow> SetResult \<times> 'w world" where
  "setVideoFormat sh w h pixFmt W =
     (let r = execSync sh (SetFmtVideo w h pixFmt) W in (setOutcome (fst r), snd r))"

definition setFrameRate :: "'w shell \<Rightarrow> int option \<Rightarrow> 'w world \<Rightarrow> SetResult \<times> 'w world" where
  "setFrameRate sh fps W =
     (let r = execSync sh (SetParm fps) W in (setOutcome (fst r), snd r))"

subsection \<open>The composite operations\<close>

text \<open>The result \<open>{ success, errors }\<close> of the two composite operations.\<close>

record BulkResult =
  allOk :: bool
  errors :: "string list"

text \<open>
  The message pushed after a format or frame-rate step: none when the step succeeded,
  \<open>busyMsg\<close> for \<open>DEVICE_BUSY\<close>, \<open>otherMsg\<close> for any other failure.
\<close>

definition stepErrors :: "SetResult \<Rightarrow> string \<Rightarrow> string \<Rightarrow> string list" where
  "stepErrors res busyMsg otherMsg =
     (if \<not> success res
      then (if error res = Some ''DEVICE_BUSY'' then [busyMsg] else [otherMsg])
      else [])"

text \<open>
  Every method called inside the \<open>try\<close> blocks below catches its own exceptions, so
  the \<open>catch\<close> branches (\<open>Unexpected error during ...\<close>) are never entered and the
  model has none.
\<close>

definition applyOptimalSettings :: "'w shell \<Rightarrow> 'w world \<Rightarrow> BulkResult \<times> 'w world" where
  "applyOptimalSettings sh W =
     (let formatResult = setVideoFormat sh (Some 1920) (Some 1080) ''MJPG'' W;
          errors1 = stepErrors (fst formatResult)
            ''Cannot change video format: camera is in use by another application''
            ''Failed to set video format'';
          frameRateResult = setFrameRate sh (Some 30) (snd formatResult);
          errors2 = errors1 @ stepErrors (fst frameRateResult)
            ''Cannot change frame rate: camera is in use by another application''
            ''Failed to set frame rate'';
          c1 = setAutoExposure sh True (snd frameRateResult);
          c2 = setAutoFocus sh True (snd c1);
          c3 = setAutoWhiteBalance sh True (snd c2);
          c4 = setPowerLineFrequency sh 2 (snd c3);
          c5 = setSaturation sh 128 (snd c4);
          c6 = setSharpness sh 128 (snd c5);
          c7 = setBrightness sh 128 (snd c6);
          c8 = setContrast sh 128 (snd c7)
      in (\<lparr> allOk = (length errors2 = 0), errors = errors2 \<rparr>, snd c8))"

definition resetToDefaults :: "'w shell \<Rightarrow> 'w world \<Rightarrow> BulkResult \<times> 'w world" where
  "resetToDefaults sh W =
     (let formatResult = setVideoFormat sh (Some 640) (Some 480) ''YUYV'' W;
          errors1 = stepErrors (fst formatResult)
            ''Cannot reset video format: camera is in use by another application''
            ''Failed to reset video format'';
          frameRateResult = setFrameRate sh (Some 30) (snd formatResult);
          errors2 = errors1 @ stepErrors (fst frameRateResult)
            ''Cannot reset frame rate: camera is in use by another application''
            ''Failed to reset frame rate'';
          c1 = setBrightness sh 128 (snd frameRateResult);
          c2 = setContrast sh 128 (snd c1);
          c3 = setSaturation sh 128 (snd c2);
          c4 = setSharpness sh 128 (snd c3);
          c5 = setGain sh 0 (snd c4);
          c6 = setAutoExposure sh False (snd c5);
          c7 = setAutoFocus sh False (snd c6);
          c8 = setAutoWhiteBalance sh True (snd c7);
          c9 = setPowerLineFrequency sh 1 (snd c8);
          c10 = setControl sh ''backlight_compensation'' 0 (snd c9)
      in (\<lparr> allOk = (length errors2 = 0), errors = errors2 \<rparr>, snd c10))"

section \<open>The interactive controller (ui.tsx)\<close>

subsection \<open>State\<close>

datatype SettingType = Range | Toggle | Select

text \<open>The union \<open>number | boolean | string\<close> of a setting's value.\<close>

datatype SettingValue = Num int | Bool bool | Str string

text \<open>\<open>SettingItem\<close>; the \<open>label\<close> is only rendered and is left out.\<close>

record SettingItem =
  key :: string
  itype :: SettingType
  ivalue :: SettingValue
  options :: "string list option"
  imin :: "int option"
  imax :: "int option"
  istep :: "int option"

datatype DialogType = DNone | DHelp | DInfo | DReset | DError

text \<open>\<open>DialogState\<close>; \<open>onConfirm\<close> is never set or read.\<close>

record DialogState =
  dtype :: DialogType
  title :: "string option"
  dmessage :: "string option"

datatype Severity = NInfo | NSuccess | NError

record NotificationState =
  message :: string
  ntype :: Severity
  visible :: bool

text \<open>
  The state of the \<open>App\<close> component: its six \<open>useState\<close> cells, and from the host
  the clock in milliseconds, the deadlines of the pending \<open>setTimeout\<close> callbacks and
  whether \<open>exit()\<close> was called. A handler reads the cells as they were when the event
  arrived and the writes take effect after it; the functions below read before they
  write, so threading one state through them gives the same result.

  The model is of the handlers. Rendering is left out: the body of the component, which
  runs again after every change of state, builds the screen and evaluates the
  initial-value expressions of the \<open>useState\<close> calls, which read the device and whose
  results are discarded after the first render. The command list of a world is therefore
  the list of commands the handlers execute.
\<close>

record ui_state =
  currentSettings :: WebcamSettings
  currentFormat :: VideoFormat
  selectedIndex :: int
  deviceBusy :: bool
  dialog :: DialogState
  notification :: NotificationState
  clock :: nat
  timers :: "nat list"
  exited :: bool

definition noDialog :: DialogState where
  "noDialog = \<lparr> dtype = DNone, title = None, dmessage = None \<rparr>"

subsection \<open>The settings catalog\<close>

definition getPowerLineDisplay :: "int \<Rightarrow> string" where
  "getPowerLineDisplay frequency =
     (if frequency = 0 then ''Disabled''
      else if frequency = 1 then ''50Hz''
      else if frequency = 2 then ''60Hz''
      else ''Unknown'')"

definition getAutoSettingName :: "string \<Rightarrow> string" where
  "getAutoSettingName manualKey =
     (if manualKey = ''exposureValue'' then ''Auto Exposure''
      else if manualKey = ''focusValue'' then ''Auto Focus''
      else if manualKey = ''whiteBalanceValue'' then ''Auto White Balance''
      else ''Auto setting'')"

text \<open>The three shapes of object literal in the catalog.\<close>

definition selectItem :: "string \<Rightarrow> string \<Rightarrow> string list \<Rightarrow> SettingItem" where
  "selectItem k v opts =
     \<lparr> key = k, itype = Select, ivalue = Str v, options = Some opts,
       imin = None, imax = None, istep = None \<rparr>"

definition rangeItem :: "string \<Rightarrow> int \<Rightarrow> int \<Rightarrow> int \<Rightarrow> int \<Rightarrow> SettingItem" where
  "rangeItem k v lo hi st =
     \<lparr> key = k, itype = Range, ivalue = Num v, options = None,
       imin = Some lo, imax = Some hi, istep = Some st \<rparr>"

definition toggleItem :: "string \<Rightarrow> bool \<Rightarrow> SettingItem" where
  "toggleItem k v =
     \<lparr> key = k, itype = Toggle, ivalue = Bool v, options = None,
       imin = None, imax = None, istep = None \<rparr>"

definition settings :: "WebcamSettings \<Rightarrow> VideoFormat \<Rightarrow> SettingItem list" where
  "settings cs cf =
     [ selectItem ''resolution'' (showInt (width cf) @ ''x'' @ showInt (height cf))
         [''640x480'', ''800x600'', ''1024x576'', ''1280x720'', ''1920x1080''],
       selectItem ''format'' (pixelFormat cf) [''YUYV'', ''MJPG''],
       selectItem ''framerate'' (showInt (frameRate cf) @ ''fps'')
         [''5fps'', ''10fps'', ''15fps'', ''20fps'', ''24fps'', ''30fps''],
       rangeItem ''brightness'' (brightness cs) 0 255 1,
       rangeItem ''contrast'' (contrast cs) 0 255 1,
       rangeItem ''saturation'' (saturation cs) 0 255 1,
       rangeItem ''sharpness'' (sharpness cs) 0 255 1,
       rangeItem ''gain'' (gain cs) 0 255 1,
       toggleItem ''autoExposure'' (autoExposure cs),
       rangeItem ''exposureValue'' (exposureValue cs) 3 2047 1,
       toggleItem ''autoFocus'' (autoFocus cs),
       rangeItem ''focusValue'' (focusValue cs) 0 250 5,
       toggleItem ''autoWhiteBalance'' (autoWhiteBalance cs),
       rangeItem ''whiteBalanceValue'' (whiteBalanceValue cs) 2000 6500 10,
       selectItem ''powerLineFrequency'' (getPowerLineDisplay (powerLineFrequency cs))
         [''Disabled'', ''50Hz'', ''60Hz''] ]"

subsection \<open>Dependency rules\<close>

definition shouldShowSetting :: "WebcamSettings \<Rightarrow> string \<Rightarrow> bool" where
  "shouldShowSetting cs k =
     (if k = ''exposureValue'' then \<not> autoExposure cs
      else if k = ''focusValue'' then \<not> autoFocus cs
      else if k = ''whiteBalanceValue'' then \<not> autoWhiteBalance cs
      else True)"

definition isManualControlDisabled :: "WebcamSettings \<Rightarrow> string \<Rightarrow> bool" where
  "isManualControlDisabled cs k =
     (if k = ''exposureValue'' then autoExposure cs
      else if k = ''focusValue'' then autoFocus cs
      else if k = ''whiteBalanceValue'' then autoWhiteBalance cs
      else False)"

text \<open>\<open>settings.filter(s => shouldShowSetting(s.key))\<close>.\<close>

definition visibleSettings :: "ui_state \<Rightarrow> SettingItem list" where
  "visibleSettings st =
     filter (\<lambda>s. shouldShowSetting (currentSettings st) (key s))
       (settings (currentSettings st) (currentFormat st))"

subsection \<open>Notifications and timers\<close>

definition showNotification :: "string \<Rightarrow> Severity \<Rightarrow> ui_state \<Rightarrow> ui_state" where
  "showNotification msg ty st =
     st\<lparr> notification := \<lparr> message = msg, ntype = ty, visible = True \<rparr>,
         timers := timers st @ [clock st + 2000] \<rparr>"

text \<open>The callback of the timer: \<open>setNotification(prev => ({ ...prev, visible: false }))\<close>.\<close>

definition hideNotification :: "ui_state \<Rightarrow> ui_state" where
  "hideNotification st = st\<lparr> notification := (notification st)\<lparr> visible := False \<rparr> \<rparr>"

text \<open>
  The host lets \<open>d\<close> milliseconds pass with no input: every pending callback whose
  deadline is reached runs, in the order it was scheduled, and leaves the list.
\<close>

definition elapse :: "nat \<Rightarrow> ui_state \<Rightarrow> ui_state" where
  "elapse d st =
     (fold (\<lambda>t s. hideNotification s) (filter (\<lambda>t. t \<le> clock st + d) (timers st)) st)
       \<lparr> clock := clock st + d, timers := filter (\<lambda>t. clock st + d < t) (timers st) \<rparr>"

subsection \<open>The apply pipeline\<close>

definition refreshSettings :: "'w shell \<Rightarrow> ui_state \<times> 'w world \<Rightarrow> ui_state \<times> 'w world" where
  "refreshSettings sh S =
     (let r1 = getCurrentSettings sh (snd S);
          r2 = getCurrentVideoFormat sh (snd r1);
          r3 = getDeviceStatus sh (snd r2)
      in ((fst S)\<lparr> currentSettings := fst r1, currentFormat := fst r2,
                    deviceBusy := inUse (fst r3) \<rparr>,
          snd r3))"

text \<open>
  The argument \<open>value: any\<close> of \<open>applySetting\<close>: the callers pass a number (the range
  branch) or a boolean (the toggle branch). A setter clamping a boolean reads it as
  \<open>0\<close> or \<open>1\<close>; a setter testing a number reads non-zero as true.
\<close>

datatype Scalar = SNum int | SBool bool

fun toNumber :: "Scalar \<Rightarrow> int" where
  "toNumber (SNum n) = n"
| "toNumber (SBool b) = (if b then 1 else 0)"

fun truthy :: "Scalar \<Rightarrow> bool" where
  "truthy (SNum n) = (n \<noteq> 0)"
| "truthy (SBool b) = b"

definition applySetting ::
  "'w shell \<Rightarrow> string \<Rightarrow> Scalar \<Rightarrow> ui_state \<times> 'w world \<Rightarrow> ui_state \<times> 'w world" where
  "applySetting sh k v S =
     refreshSettings sh
       (fst S,
        if k = ''brightness'' then snd (setBrightness sh (toNumber v) (snd S))
        else if k = ''contrast'' then snd (setContrast sh (toNumber v) (snd S))
        else if k = ''saturation'' then snd (setSaturation sh (toNumber v) (snd S))
        else if k = ''sharpness'' then snd (setSharpness sh (toNumber v) (snd S))
        else if k = ''gain'' then snd (setGain sh (toNumber v) (snd S))
        else if k = ''autoExposure'' then snd (setAutoExposure sh (truthy v) (snd S))
        else if k = ''exposureValue'' then snd (setExposureValue sh (toNumber v) (snd S))
        else if k = ''autoFocus'' then snd (setAutoFocus sh (truthy v) (snd S))
        else if k = ''focusValue'' then snd (setFocusValue sh (toNumber v) (snd S))
        else if k = ''autoWhiteBalance'' then snd (setAutoWhiteBalance sh (truthy v) (snd S))
        else if k = ''whiteBalanceValue'' then snd (setWhiteBalanceValue sh (toNumber v) (snd S))
        else snd S)"

text \<open>
  \<open>settings.find(s => s.key === k)?.value as string || fallback\<close>: the value of the
  catalog entry \<open>k\<close>, or the fallback when there is no entry or its value is the empty
  string. (The entries read this way are select entries, whose values are strings.)
\<close>

definition valueOr :: "SettingItem list \<Rightarrow> string \<Rightarrow> string \<Rightarrow> string" where
  "valueOr items k fallback =
     (case find (\<lambda>s. key s = k) items of
        None \<Rightarrow> fallback
      | Some s \<Rightarrow> (case ivalue s of Str v \<Rightarrow> (if v = [] then fallback else v) | _ \<Rightarrow> fallback))"

text \<open>
  \<open>const [a, b] = value.split('x').map(Number)\<close>: a missing piece is \<open>undefined\<close>.
\<close>

definition splitDims :: "string \<Rightarrow> int option \<times> int option" where
  "splitDims v =
     (let parts = map Number (split (CHR ''x'') v) in
      (case at parts 0 of None \<Rightarrow> None | Some a \<Rightarrow> a,
       case at parts 1 of None \<Rightarrow> None | Some b \<Rightarrow> b))"

text \<open>The notification of a format or frame-rate change that found the device busy.\<close>

definition notifyIfBusy :: "SetResult \<Rightarrow> string \<Rightarrow> ui_state \<Rightarrow> ui_state" where
  "notifyIfBusy res msg st =
     (if \<not> success res \<and> error res = Some ''DEVICE_BUSY''
      then showNotification msg NError st else st)"

definition applySelectSetting ::
  "'w shell \<Rightarrow> string \<Rightarrow> string \<Rightarrow> ui_state \<times> 'w world \<Rightarrow> ui_state \<times> 'w world" where
  "applySelectSetting sh k v S =
     (let items = settings (currentSettings (fst S)) (currentFormat (fst S)) in
      if k = ''resolution'' then
        (let wh = splitDims v;
             currentFmt = valueOr items ''format'' ''MJPG'';
             formatResult = setVideoFormat sh (fst wh) (snd wh) currentFmt (snd S)
         in refreshSettings sh
              (notifyIfBusy (fst formatResult)
                 ''Cannot change resolution: camera is in use'' (fst S),
               snd formatResult))
      else if k = ''format'' then
        (let currentRes = valueOr items ''resolution'' ''1920x1080'';
             wh = splitDims currentRes;
             formatChangeResult = setVideoFormat sh (fst wh) (snd wh) v (snd S)
         in refreshSettings sh
              (notifyIfBusy (fst formatChangeResult)
                 ''Cannot change pixel format: camera is in use'' (fst S),
               snd formatChangeResult))
      else if k = ''framerate'' then
        (let fps = parseInt (replace v ''fps'' []);
             frameRateResult = setFrameRate sh fps (snd S)
         in refreshSettings sh
              (notifyIfBusy (fst frameRateResult)
                 ''Cannot change frame rate: camera is in use'' (fst S),
               snd frameRateResult))
      else if k = ''powerLineFrequency'' then
        (let freq = (if v = ''50Hz'' then 1 else if v = ''60Hz'' then 2 else 0)
         in refreshSettings sh (fst S, snd (setPowerLineFrequency sh freq (snd S))))
      else refreshSettings sh S)"

subsection \<open>Value adjustment\<close>

text \<open>The range branch: \<open>step\<close>, \<open>min\<close> and \<open>max\<close> with their defaults, then the clamp.\<close>

definition rangeNewValue :: "SettingItem \<Rightarrow> int \<Rightarrow> int \<Rightarrow> int" where
  "rangeNewValue setting v delta =
     (let step = optOrElse (istep setting) 1;
          lo = optOrElse (imin setting) 0;
          hi = optOrElse (imax setting) 255
      in max lo (min hi (v + delta * step)))"

text \<open>
  The select branch: \<open>indexOf\<close> compares with \<open>===\<close>, so a value that is no string is
  at no position.
\<close>

definition selectNewIndex :: "string list \<Rightarrow> SettingValue \<Rightarrow> int \<Rightarrow> int" where
  "selectNewIndex opts v delta =
     (let currentIndex = (case v of Str s \<Rightarrow> indexOf opts s | _ \<Rightarrow> - 1)
      in max 0 (min (int (length opts) - 1) (currentIndex + delta)))"

text \<open>\<open>!(setting.value as boolean)\<close>: \<open>0\<close> and the empty string are falsy.\<close>

fun negated :: "SettingValue \<Rightarrow> bool" where
  "negated (Bool b) = (\<not> b)"
| "negated (Num n) = (n = 0)"
| "negated (Str s) = (s = [])"

text \<open>
  \<open>adjustCurrentSetting\<close>. Two places rest on the types the catalog guarantees (see
  \<open>settings_typed\<close> below): a range entry holds a number, and the options of a select
  entry are not empty, so that \<open>options[newIndex]\<close> is defined. Outside them the
  model leaves the state as it is.
\<close>

definition adjustCurrentSetting ::
  "'w shell \<Rightarrow> int \<Rightarrow> ui_state \<times> 'w world \<Rightarrow> ui_state \<times> 'w world" where
  "adjustCurrentSetting sh delta S =
     (case at (visibleSettings (fst S)) (selectedIndex (fst S)) of
        None \<Rightarrow> S
      | Some setting \<Rightarrow>
          if deviceBusy (fst S) \<and> key setting \<in> set [''resolution'', ''format'', ''framerate'']
          then (showNotification ''Cannot change: camera is in use'' NError (fst S), snd S)
          else if isManualControlDisabled (currentSettings (fst S)) (key setting)
          then (showNotification
                  (''Cannot adjust: '' @ getAutoSettingName (key setting) @ '' is enabled'')
                  NError (fst S),
                snd S)
          else
            (case itype setting of
               Range \<Rightarrow>
                 (case ivalue setting of
                    Num v \<Rightarrow> applySetting sh (key setting) (SNum (rangeNewValue setting v delta)) S
                  | _ \<Rightarrow> S)
             | Select \<Rightarrow>
                 (case options setting of
                    None \<Rightarrow> S
                  | Some opts \<Rightarrow>
                      (case at opts (selectNewIndex opts (ivalue setting) delta) of
                         None \<Rightarrow> S
                       | Some v \<Rightarrow> applySelectSetting sh (key setting) v S))
             | Toggle \<Rightarrow> applySetting sh (key setting) (SBool (negated (ivalue setting))) S))"

subsection \<open>Composite operations\<close>

definition applyOptimalSettings_ui :: "'w shell \<Rightarrow> ui_state \<times> 'w world \<Rightarrow> ui_state \<times> 'w world" where
  "applyOptimalSettings_ui sh S =
     (let st1 = showNotification ''Applying optimal settings...'' NInfo (fst S);
          result = applyOptimalSettings sh (snd S);
          S2 = refreshSettings sh (st1, snd result)
      in if allOk (fst result)
         then (showNotification ''Optimal settings applied successfully!'' NSuccess (fst S2), snd S2)
         else if length (errors (fst result)) > 0
         then ((fst S2)\<lparr> dialog :=
                  \<lparr> dtype = DError,
                    title = Some ''Optimal Settings - Partial Success'',
                    dmessage = Some (join ''. '' (errors (fst result)) @ ''.'') \<rparr> \<rparr>,
               snd S2)
         else (showNotification ''Failed to apply optimal settings'' NError (fst S2), snd S2))"

definition resetToDefaults_ui :: "'w shell \<Rightarrow> ui_state \<times> 'w world \<Rightarrow> ui_state \<times> 'w world" where
  "resetToDefaults_ui sh S =
     (let st1 = showNotification ''Resetting to factory defaults...'' NInfo (fst S);
          result = resetToDefaults sh (snd S);
          S2 = refreshSettings sh (st1, snd result);
          S3 = (if allOk (fst result)
                then (showNotification ''Factory defaults restored successfully!'' NSuccess (fst S2),
                      snd S2)
                else if length (errors (fst result)) > 0
                then ((fst S2)\<lparr> dialog :=
                         \<lparr> dtype = DError,
                           title = Some ''Reset to Defaults - Partial Success'',
                           dmessage = Some (join ''. '' (errors (fst result)) @ ''.'') \<rparr> \<rparr>,
                      snd S2)
                else (showNotification ''Failed to reset to defaults'' NError (fst S2), snd S2))
      in ((fst S3)\<lparr> dialog := noDialog \<rparr>, snd S3))"

subsection \<open>Keyboard input\<close>

text \<open>The flags of ink's \<open>key\<close> object that the handler reads.\<close>

record Key =
  upArrow :: bool
  downArrow :: bool
  leftArrow :: bool
  rightArrow :: bool
  return :: bool
  escape :: bool
  pageUp :: bool
  pageDown :: bool
  ctrl :: bool

definition useInput ::
  "'w shell \<Rightarrow> string \<Rightarrow> Key \<Rightarrow> ui_state \<times> 'w world \<Rightarrow> ui_state \<times> 'w world" where
  "useInput sh input k S =
     (if dtype (dialog (fst S)) \<noteq> DNone then
        (if dtype (dialog (fst S)) = DReset then
           (if input = ''y'' \<or> input = ''Y''
            then resetToDefaults_ui sh ((fst S)\<lparr> dialog := noDialog \<rparr>, snd S)
            else if input = ''n'' \<or> input = ''N'' \<or> escape k
            then ((fst S)\<lparr> dialog := noDialog \<rparr>, snd S)
            else S)
         else
           (if return k \<or> escape k \<or> input = ''q''
            then ((fst S)\<lparr> dialog := noDialog \<rparr>, snd S)
            else S))
      else if upArrow k then
        ((fst S)\<lparr> selectedIndex := max 0 (selectedIndex (fst S) - 1) \<rparr>, snd S)
      else if downArrow k then
        ((fst S)\<lparr> selectedIndex :=
            min (int (length (visibleSettings (fst S))) - 1) (selectedIndex (fst S) + 1) \<rparr>,
         snd S)
      else if leftArrow k then adjustCurrentSetting sh (- 1) S
      else if rightArrow k then adjustCurrentSetting sh 1 S
      else if return k then adjustCurrentSetting sh 0 S
      else if pageUp k then adjustCurrentSetting sh (- 10) S
      else if pageDown k then adjustCurrentSetting sh 10 S
      else if input = ''o'' \<or> input = ''O'' then applyOptimalSettings_ui sh S
      else if input = ''r'' \<or> input = ''R'' then
        ((fst S)\<lparr> dialog :=
            \<lparr> dtype = DReset,
              title = Some ''Reset to Factory Defaults'',
              dmessage = Some (''This will reset all settings to factory defaults.'' @ [CHR 0x0A] @
                               ''Are you sure you want to continue?'') \<rparr> \<rparr>,
         snd S)
      else if input = ''i'' \<or> input = ''I'' then
        (let info = getDetailedInfo sh (snd S) in
         ((fst S)\<lparr> dialog :=
             \<lparr> dtype = DInfo,
               title = Some ''Detailed Camera Information'',
               dmessage = Some (fst info) \<rparr> \<rparr>,
          snd info))
      else if input = ''h'' \<or> input = ''H'' \<or> input = ''?'' then
        ((fst S)\<lparr> dialog := \<lparr> dtype = DHelp, title = None, dmessage = None \<rparr> \<rparr>, snd S)
      else if input = ''q'' \<or> input = ''Q'' \<or> (ctrl k \<and> input = ''c'') then
        ((fst S)\<lparr> exited := True \<rparr>, snd S)
      else S)"

text \<open>The state at mount: the initial values of the \<open>useState\<close> cells.\<close>

definition initialState :: "'w shell \<Rightarrow> 'w world \<Rightarrow> ui_state \<times> 'w world" where
  "initialState sh W =
     (let r1 = getCurrentSettings sh W;
          r2 = getCurrentVideoFormat sh (snd r1)
      in (\<lparr> currentSettings = fst r1, currentFormat = fst r2, selectedIndex = 0,
             deviceBusy = False, dialog = noDialog,
             notification = \<lparr> message = [], ntype = NInfo, visible = False \<rparr>,
             clock = 0, timers = [], exited = False \<rparr>,
          snd r2))"

section \<open>A bench camera\<close>

text \<open>
  One shell to run the program on: a camera that stores the controls it is given and
  its format, and that refuses every format command with \<open>Device or resource busy\<close>
  while another application holds it. It is used for the concrete runs below only;
  the general statements are about every shell.
\<close>

record camera =
  controls :: "(string \<times> int) list"
  camWidth :: int
  camHeight :: int
  camPixel :: string
  camRate :: int
  held :: bool

definition silent :: stdout where
  "silent = \<lparr> raw = [], ctrlValue = None, widthHeight = None, pixelTag = None,
               framesPerSecond = None \<rparr>"

definition bench :: "camera shell" where
  "bench cam c =
     (case c of
        GetCtrl n \<Rightarrow>
          (case map_of (controls cam) n of
             None \<Rightarrow> (Threw ''unknown control'', cam)
           | Some v \<Rightarrow> (Returned (silent\<lparr> ctrlValue := Some v \<rparr>), cam))
      | SetCtrl n v \<Rightarrow>
          (Returned silent,
           cam\<lparr> controls := (n, v) # filter (\<lambda>p. fst p \<noteq> n) (controls cam) \<rparr>)
      | GetFmtVideo \<Rightarrow>
          (if held cam then (Threw ''Device or resource busy'', cam)
           else (Returned (silent\<lparr> widthHeight := Some (camWidth cam, camHeight cam),
                                    pixelTag := Some (camPixel cam) \<rparr>), cam))
      | GetParm \<Rightarrow> (Returned (silent\<lparr> framesPerSecond := Some (camRate cam) \<rparr>), cam)
      | ListCtrls \<Rightarrow> (Returned silent, cam)
      | SetFmtVideo w h p \<Rightarrow>
          (if held cam then (Threw ''Device or resource busy'', cam)
           else (case w of
                   None \<Rightarrow> (Threw ''Invalid argument'', cam)
                 | Some w' \<Rightarrow>
                     (case h of
                        None \<Rightarrow> (Threw ''Invalid argument'', cam)
                      | Some h' \<Rightarrow>
                          (Returned silent,
                           cam\<lparr> camWidth := w', camHeight := h', camPixel := p \<rparr>))))
      | SetParm f \<Rightarrow>
          (if held cam then (Threw ''Device or resource busy'', cam)
           else (case f of
                   None \<Rightarrow> (Threw ''Invalid argument'', cam)
                 | Some f' \<Rightarrow> (Returned silent, cam\<lparr> camRate := f' \<rparr>))))"

text \<open>The value a control reads as on the bench camera.\<close>

definition reg :: "camera \<Rightarrow> string \<Rightarrow> int" where
  "reg cam n = (case map_of (controls cam) n of None \<Rightarrow> 0 | Some v \<Rightarrow> v)"

text \<open>A camera in manual mode (the three automatic modes off), free and held.\<close>

definition manualCamera :: camera where
  "manualCamera =
     \<lparr> controls = [(''brightness'', 100), (''contrast'', 128), (''saturation'', 128),
                    (''sharpness'', 128), (''gain'', 10), (''auto_exposure'', 1),
                    (''focus_automatic_continuous'', 0), (''white_balance_automatic'', 0),
                    (''power_line_frequency'', 1), (''exposure_time_absolute'', 250),
                    (''focus_absolute'', 30), (''white_balance_temperature'', 4000)],
       camWidth = 1280, camHeight = 720, camPixel = ''MJPG'', camRate = 30, held = False \<rparr>"

definition heldCamera :: camera where
  "heldCamera = manualCamera\<lparr> held := True \<rparr>"

definition noKey :: Key where
  "noKey = \<lparr> upArrow = False, downArrow = False, leftArrow = False, rightArrow = False,
             return = False, escape = False, pageUp = False, pageDown = False, ctrl = False \<rparr>"

definition downKey :: Key where
  "downKey = noKey\<lparr> downArrow := True \<rparr>"

subsection \<open>Runs\<close>

text \<open>The program started on the free camera.\<close>

definition benchStart :: "ui_state \<times> camera world" where
  "benchStart = initialState bench (manualCamera, [])"

text \<open>Down nine times: the cursor is on the exposure value.\<close>

definition onExposure :: "ui_state \<times> camera world" where
  "onExposure = ((useInput bench [] downKey) ^^ 9) benchStart"

text \<open>Down fourteen times: the cursor is on the last of the fifteen rows.\<close>

definition scrolledToEnd :: "ui_state \<times> camera world" where
  "scrolledToEnd = ((useInput bench [] downKey) ^^ 14) benchStart"

text \<open>Then \<open>o\<close>: Optimize switches the three automatic modes on.\<close>

definition afterOptimize :: "ui_state \<times> camera world" where
  "afterOptimize = useInput bench ''o'' noKey scrolledToEnd"

text \<open>On the free camera, \<open>r\<close> opens the confirmation.\<close>

definition benchConfirm :: "ui_state \<times> camera world" where
  "benchConfirm = useInput bench ''r'' noKey benchStart"

text \<open>
  The program started on the held camera; \<open>r\<close> opens the confirmation and \<open>y\<close>
  confirms the reset.
\<close>

definition heldStart :: "ui_state \<times> camera world" where
  "heldStart = initialState bench (heldCamera, [])"

definition heldConfirm :: "ui_state \<times> camera world" where
  "heldConfirm = useInput bench ''r'' noKey heldStart"

definition heldReset :: "ui_state \<times> camera world" where
  "heldReset = useInput bench ''y'' noKey heldConfirm"

text \<open>Two notifications, the second 500 ms after the first.\<close>

definition twoNotices :: ui_state where
  "twoNotices =
     showNotification ''second'' NSuccess
       (elapse 500 (showNotification ''first'' NInfo (fst benchStart)))"

section \<open>Facts about the model\<close>

subsection \<open>Arrays\<close>

lemma at_Some_mem: "at xs i = Some x \<Longrightarrow> x \<in> set xs"
  by (auto simp: at_def split: if_splits)

lemma at_None_iff: "at xs i = None \<longleftrightarrow> i < 0 \<or> int (length xs) \<le> i"
  by (auto simp: at_def)

lemma indexOf_absent: "v \<notin> set xs \<Longrightarrow> indexOf xs v = - 1"
  by (induction xs) auto

lemma indexOf_mem:
  "v \<in> set xs \<Longrightarrow> 0 \<le> indexOf xs v \<and> indexOf xs v < int (length xs) \<and> xs ! nat (indexOf xs v) = v"
proof (induction xs)
  case Nil
  then show ?case by simp
next
  case (Cons x xs)
  show ?case
  proof (cases "x = v")
    case True
    then show ?thesis by simp
  next
    case False
    with Cons.prems have "v \<in> set xs" by simp
    from Cons.IH [OF this] False show ?thesis by (simp add: nat_add_distrib)
  qed
qed

subsection \<open>Commands issued by the backend\<close>

text \<open>
  The second component of a world is the list of commands executed so far; each
  method of the controller appends its own.
\<close>

lemma execSync_trace: "snd (snd (execSync sh c W)) = snd W @ [c]"
  by (simp add: execSync_def)

lemma getControl_trace: "snd (snd (getControl sh n W)) = snd W @ [GetCtrl n]"
  by (simp add: getControl_def Let_def execSync_trace)

lemma setControl_trace: "snd (snd (setControl sh n v W)) = snd W @ [SetCtrl n v]"
  by (simp add: setControl_def Let_def execSync_trace)

lemma setVideoFormat_trace:
  "snd (snd (setVideoFormat sh w h p W)) = snd W @ [SetFmtVideo w h p]"
  by (simp add: setVideoFormat_def Let_def execSync_trace)

lemma setFrameRate_trace: "snd (snd (setFrameRate sh f W)) = snd W @ [SetParm f]"
  by (simp add: setFrameRate_def Let_def execSync_trace)

lemmas setter_defs = setBrightness_def setContrast_def setSaturation_def setSharpness_def
  setGain_def setAutoExposure_def setAutoFocus_def setAutoWhiteBalance_def
  setPowerLineFrequency_def setExposureValue_def setFocusValue_def setWhiteBalanceValue_def


lemma resetToDefaults_trace:
  "snd (snd (resetToDefaults sh W)) =
     snd W @ [SetFmtVideo (Some 640) (Some 480) ''YUYV'', SetParm (Some 30),
              SetCtrl ''brightness'' 128, SetCtrl ''contrast'' 128,
              SetCtrl ''saturation'' 128, SetCtrl ''sharpness'' 128, SetCtrl ''gain'' 0,
              SetCtrl ''auto_exposure'' 1, SetCtrl ''focus_automatic_continuous'' 0,
              SetCtrl ''white_balance_automatic'' 1, SetCtrl ''power_line_frequency'' 1,
              SetCtrl ''backlight_compensation'' 0]"
  by (simp add: resetToDefaults_def Let_def setter_defs setControl_trace
        setVideoFormat_trace setFrameRate_trace)

lemma getCurrentSettings_trace:
  "snd (snd (getCurrentSettings sh W)) =
     snd W @ map GetCtrl [''brightness'', ''contrast'', ''saturation'', ''sharpness'', ''gain'',
       ''auto_exposure'', ''focus_automatic_continuous'', ''white_balance_automatic'',
       ''power_line_frequency'', ''exposure_time_absolute'', ''focus_absolute'',
       ''white_balance_temperature'']"
  by (simp add: getCurrentSettings_def Let_def getControl_trace)

lemma getCurrentVideoFormat_trace:
  "set (snd (snd (getCurrentVideoFormat sh W))) \<subseteq> set (snd W) \<union> {GetFmtVideo, GetParm}"
  by (auto simp: getCurrentVideoFormat_def Let_def execSync_def split: exec_out.splits)

lemma getDeviceStatus_trace: "snd (snd (getDeviceStatus sh W)) = snd W @ [GetFmtVideo]"
  by (simp add: getDeviceStatus_def Let_def execSync_trace)

lemma stepErrors_length: "length (stepErrors r a b) = (if success r then 0 else 1)"
  by (simp add: stepErrors_def)

lemma setOutcome_success: "success (setOutcome r) = (\<exists>out. r = Returned out)"
  by (cases r) (simp_all add: setOutcome_def)

lemma applyOptimalSettings_errors:
  "errors (fst (applyOptimalSettings sh W)) =
       stepErrors (fst (setVideoFormat sh (Some 1920) (Some 1080) ''MJPG'' W))
         ''Cannot change video format: camera is in use by another application''
         ''Failed to set video format''
       @ stepErrors
           (fst (setFrameRate sh (Some 30)
                  (snd (setVideoFormat sh (Some 1920) (Some 1080) ''MJPG'' W))))
         ''Cannot change frame rate: camera is in use by another application''
         ''Failed to set frame rate''"
  by (simp add: applyOptimalSettings_def Let_def)

lemma resetToDefaults_errors:
  "errors (fst (resetToDefaults sh W)) =
       stepErrors (fst (setVideoFormat sh (Some 640) (Some 480) ''YUYV'' W))
         ''Cannot reset video format: camera is in use by another application''
         ''Failed to reset video format''
       @ stepErrors
           (fst (setFrameRate sh (Some 30)
                  (snd (setVideoFormat sh (Some 640) (Some 480) ''YUYV'' W))))
         ''Cannot reset frame rate: camera is in use by another application''
         ''Failed to reset frame rate''"
  by (simp add: resetToDefaults_def Let_def)

lemma applyOptimalSettings_allOk:
  "allOk (fst (applyOptimalSettings sh W)) = (errors (fst (applyOptimalSettings sh W)) = [])"
  by (simp add: applyOptimalSettings_def Let_def)

lemma resetToDefaults_allOk:
  "allOk (fst (resetToDefaults sh W)) = (errors (fst (resetToDefaults sh W)) = [])"
  by (simp add: resetToDefaults_def Let_def)

lemma stepErrors_setOutcome:
  "stepErrors (setOutcome r) busyMsg otherMsg =
     (case r of
        Returned out \<Rightarrow> []
      | Threw msg \<Rightarrow>
          if includesStr msg ''Device or resource busy'' then [busyMsg] else [otherMsg])"
  by (cases r) (simp_all add: stepErrors_def setOutcome_def del: includesStr.simps)

lemma setVideoFormat_result:
  "fst (setVideoFormat sh w h p W) = setOutcome (fst (sh (fst W) (SetFmtVideo w h p)))
   \<and> fst (snd (setVideoFormat sh w h p W)) = snd (sh (fst W) (SetFmtVideo w h p))"
  by (simp add: setVideoFormat_def Let_def execSync_def)

lemma setFrameRate_result:
  "fst (setFrameRate sh f W) = setOutcome (fst (sh (fst W) (SetParm f)))"
  by (simp add: setFrameRate_def Let_def execSync_def)


lemma resetToDefaults_messages:
  "errors (fst (resetToDefaults sh W)) =
     (case fst (sh (fst W) (SetFmtVideo (Some 640) (Some 480) ''YUYV'')) of
        Returned out \<Rightarrow> []
      | Threw msg \<Rightarrow>
          if includesStr msg ''Device or resource busy''
          then [''Cannot reset video format: camera is in use by another application'']
          else [''Failed to reset video format''])
     @ (case fst (sh (snd (sh (fst W) (SetFmtVideo (Some 640) (Some 480) ''YUYV'')))
                    (SetParm (Some 30))) of
        Returned out \<Rightarrow> []
      | Threw msg \<Rightarrow>
          if includesStr msg ''Device or resource busy''
          then [''Cannot reset frame rate: camera is in use by another application'']
          else [''Failed to reset frame rate''])"
  by (simp only: resetToDefaults_errors setVideoFormat_result setFrameRate_result
        stepErrors_setOutcome)


lemma resetToDefaults_success:
  "allOk (fst (resetToDefaults sh W)) =
     ((\<exists>out. fst (sh (fst W) (SetFmtVideo (Some 640) (Some 480) ''YUYV'')) = Returned out)
      \<and> (\<exists>out. fst (sh (snd (sh (fst W) (SetFmtVideo (Some 640) (Some 480) ''YUYV'')))
                      (SetParm (Some 30))) = Returned out))"
  unfolding resetToDefaults_allOk resetToDefaults_messages
  by (simp split: exec_out.splits del: includesStr.simps)

subsection \<open>The catalog and the visible settings\<close>

lemma length_visibleSettings:
  "length (visibleSettings st) =
     15 - (if autoExposure (currentSettings st) then 1 else 0)
        - (if autoFocus (currentSettings st) then 1 else 0)
        - (if autoWhiteBalance (currentSettings st) then 1 else 0)"
  by (simp add: visibleSettings_def settings_def shouldShowSetting_def
        selectItem_def rangeItem_def toggleItem_def)

lemma visibleSettings_bounds: "12 \<le> length (visibleSettings st) \<and> length (visibleSettings st) \<le> 15"
  by (simp add: length_visibleSettings)

lemma visibleSettings_index_update [simp]:
  "visibleSettings (st\<lparr> selectedIndex := i \<rparr>) = visibleSettings st"
  by (simp add: visibleSettings_def)

lemma visibleSettings_busy_update [simp]:
  "visibleSettings (st\<lparr> deviceBusy := b \<rparr>) = visibleSettings st"
  by (simp add: visibleSettings_def)

lemma disabled_iff_hidden: "isManualControlDisabled cs k = (\<not> shouldShowSetting cs k)"
  by (simp add: isManualControlDisabled_def shouldShowSetting_def)

lemma visible_mem:
  "s \<in> set (visibleSettings st) \<longleftrightarrow>
     s \<in> set (settings (currentSettings st) (currentFormat st)) \<and>
     shouldShowSetting (currentSettings st) (key s)"
  by (simp add: visibleSettings_def)

lemma hidden_keys:
  "s \<in> set (visibleSettings st) \<Longrightarrow>
     (autoExposure (currentSettings st) \<longrightarrow> key s \<noteq> ''exposureValue'') \<and>
     (autoFocus (currentSettings st) \<longrightarrow> key s \<noteq> ''focusValue'') \<and>
     (autoWhiteBalance (currentSettings st) \<longrightarrow> key s \<noteq> ''whiteBalanceValue'')"
  by (auto simp: visible_mem shouldShowSetting_def)

lemma visible_first:
  "at (visibleSettings st) 0 =
     Some (selectItem ''resolution''
             (showInt (width (currentFormat st)) @ ''x'' @ showInt (height (currentFormat st)))
             [''640x480'', ''800x600'', ''1024x576'', ''1280x720'', ''1920x1080''])"
  by (simp add: visibleSettings_def settings_def shouldShowSetting_def at_def selectItem_def)

text \<open>
  The keys of the visible settings are distinct, so a key determines its row; the rows of
  the three toggles depend only on the automatic modes above them.
\<close>

lemma visible_keys:
  "map key (visibleSettings st) =
     filter (shouldShowSetting (currentSettings st))
       [''resolution'', ''format'', ''framerate'', ''brightness'', ''contrast'', ''saturation'',
        ''sharpness'', ''gain'', ''autoExposure'', ''exposureValue'', ''autoFocus'',
        ''focusValue'', ''autoWhiteBalance'', ''whiteBalanceValue'', ''powerLineFrequency'']"
  by (simp add: visibleSettings_def settings_def shouldShowSetting_def
        selectItem_def rangeItem_def toggleItem_def)

lemma visible_keys_distinct: "distinct (map key (visibleSettings st))"
  unfolding visible_keys by (rule distinct_filter) simp

lemma toggle_rows:
  "map key (visibleSettings st) ! 8 = ''autoExposure''
   \<and> map key (visibleSettings st) ! (if autoExposure (currentSettings st) then 9 else 10)
       = ''autoFocus''
   \<and> map key (visibleSettings st) !
        ((if autoExposure (currentSettings st) then 11 else 12)
          - (if autoFocus (currentSettings st) then 1 else 0))
       = ''autoWhiteBalance''"
  unfolding visible_keys by (simp add: shouldShowSetting_def)

lemma selected_toggle_row:
  assumes "at (visibleSettings st) i = Some s"
  shows "(key s = ''autoExposure'' \<longrightarrow> i = 8)
     \<and> (key s = ''autoFocus'' \<longrightarrow>
          i = (if autoExposure (currentSettings st) then 9 else 10))
     \<and> (key s = ''autoWhiteBalance'' \<longrightarrow>
          i = (if autoExposure (currentSettings st) then 11 else 12)
                - (if autoFocus (currentSettings st) then 1 else 0))"
proof -
  let ?ks = "map key (visibleSettings st)"
  from assms have r: "0 \<le> i" "nat i < length ?ks"
      and s: "visibleSettings st ! nat i = s"
    by (auto simp: at_def split: if_splits)
  have k: "?ks ! nat i = key s" using r(2) s by simp
  have len: "length ?ks =
       15 - (if autoExposure (currentSettings st) then 1 else 0)
          - (if autoFocus (currentSettings st) then 1 else 0)
          - (if autoWhiteBalance (currentSettings st) then 1 else 0)"
    by (simp add: length_visibleSettings)
  note d = visible_keys_distinct [of st]
  note t = toggle_rows [of st]
  have pos: "\<And>j. j < length ?ks \<Longrightarrow> ?ks ! j = key s \<Longrightarrow> nat i = j"
  proof -
    fix j
    assume j: "j < length ?ks" "?ks ! j = key s"
    with k have "?ks ! nat i = ?ks ! j" by (simp del: nth_map)
    then show "nat i = j" using nth_eq_iff_index_eq [OF d r(2) j(1)] by blast
  qed
  have 1: "key s = ''autoExposure'' \<longrightarrow> i = 8"
  proof
    assume "key s = ''autoExposure''"
    with t have "?ks ! 8 = key s" by (simp del: nth_map)
    moreover have "8 < length ?ks" unfolding len by simp
    ultimately have "nat i = 8" by (rule pos [rotated])
    with r(1) show "i = 8" by simp
  qed
  have 2: "key s = ''autoFocus'' \<longrightarrow> i = (if autoExposure (currentSettings st) then 9 else 10)"
  proof
    assume a: "key s = ''autoFocus''"
    with t have "?ks ! (if autoExposure (currentSettings st) then 9 else 10) = key s"
      by (simp del: nth_map)
    moreover have "(if autoExposure (currentSettings st) then 9 else 10) < length ?ks"
      unfolding len by simp
    ultimately have "nat i = (if autoExposure (currentSettings st) then 9 else 10)"
      by (rule pos [rotated])
    with r(1) show "i = (if autoExposure (currentSettings st) then 9 else 10)"
      by (simp split: if_splits)
  qed
  have 3: "key s = ''autoWhiteBalance'' \<longrightarrow>
          i = (if autoExposure (currentSettings st) then 11 else 12)
                - (if autoFocus (currentSettings st) then 1 else 0)"
  proof
    assume a: "key s = ''autoWhiteBalance''"
    with t have "?ks ! ((if autoExposure (currentSettings st) then 11 else 12)
                - (if autoFocus (currentSettings st) then 1 else 0)) = key s"
      by (simp del: nth_map)
    moreover have "(if autoExposure (currentSettings st) then 11 else 12)
                - (if autoFocus (currentSettings st) then 1 else 0) < length ?ks"
      unfolding len by simp
    ultimately have "nat i = (if autoExposure (currentSettings st) then 11 else 12)
                - (if autoFocus (currentSettings st) then 1 else 0)"
      by (rule pos [rotated])
    with r(1) show "i = (if autoExposure (currentSettings st) then 11 else 12)
                - (if autoFocus (currentSettings st) then 1 else 0)"
      by (simp split: if_splits)
  qed
  from 1 2 3 show ?thesis by blast
qed

text \<open>
  Every entry of the catalog holds a value of its type, and every select entry has
  options.
\<close>

lemma settings_typed:
  "s \<in> set (settings cs cf) \<Longrightarrow>
     (case itype s of
        Range \<Rightarrow> (\<exists>v. ivalue s = Num v)
      | Toggle \<Rightarrow> (\<exists>b. ivalue s = Bool b)
      | Select \<Rightarrow> (\<exists>v opts. ivalue s = Str v \<and> options s = Some opts \<and> opts \<noteq> []))"
  by (auto simp: settings_def selectItem_def rangeItem_def toggleItem_def)

lemma settings_range:
  "s \<in> set (settings cs cf) \<Longrightarrow> itype s = Range \<Longrightarrow>
     \<exists>v lo hi stp. ivalue s = Num v \<and> imin s = Some lo \<and> imax s = Some hi \<and> istep s = Some stp
        \<and> 0 \<le> lo \<and> lo < hi \<and> 0 < stp
        \<and> key s \<notin> set [''resolution'', ''format'', ''framerate'']"
  by (auto simp: settings_def selectItem_def rangeItem_def toggleItem_def)

lemma settings_select:
  "s \<in> set (settings cs cf) \<Longrightarrow> itype s = Select \<Longrightarrow>
     \<exists>v opts. ivalue s = Str v \<and> options s = Some opts \<and> opts \<noteq> []"
  by (auto simp: settings_def selectItem_def rangeItem_def toggleItem_def)

lemma rangeNewValue_eq:
  "imin s = Some lo \<Longrightarrow> imax s = Some hi \<Longrightarrow> istep s = Some stp \<Longrightarrow> 0 \<le> lo \<Longrightarrow> lo < hi \<Longrightarrow>
   0 < stp \<Longrightarrow> rangeNewValue s v delta = max lo (min hi (v + delta * stp))"
  by (simp add: rangeNewValue_def optOrElse_def orElse_def)

lemma selectNewIndex_range:
  "opts \<noteq> [] \<Longrightarrow> 0 \<le> selectNewIndex opts v delta \<and> selectNewIndex opts v delta < int (length opts)"
  by (cases opts) (auto simp: selectNewIndex_def Let_def)

subsection \<open>What the handlers change\<close>

lemma refreshSettings_fst:
  "fst (refreshSettings sh S) =
     (fst S)\<lparr> currentSettings := fst (getCurrentSettings sh (snd S)),
              currentFormat := fst (getCurrentVideoFormat sh (snd (getCurrentSettings sh (snd S)))),
              deviceBusy := inUse (fst (getDeviceStatus sh
                 (snd (getCurrentVideoFormat sh (snd (getCurrentSettings sh (snd S))))))) \<rparr>"
  by (simp add: refreshSettings_def Let_def)

lemma refreshSettings_index [simp]:
  "selectedIndex (fst (refreshSettings sh S)) = selectedIndex (fst S)"
  by (simp add: refreshSettings_fst)

lemma showNotification_index [simp]:
  "selectedIndex (showNotification m t st) = selectedIndex st"
  by (simp add: showNotification_def)

lemma applySetting_index [simp]:
  "selectedIndex (fst (applySetting sh k v S)) = selectedIndex (fst S)"
  by (simp add: applySetting_def)

lemma applySelectSetting_index [simp]:
  "selectedIndex (fst (applySelectSetting sh k v S)) = selectedIndex (fst S)"
  by (simp add: applySelectSetting_def Let_def notifyIfBusy_def)

lemma adjustCurrentSetting_index [simp]:
  "selectedIndex (fst (adjustCurrentSetting sh d S)) = selectedIndex (fst S)"
  by (simp add: adjustCurrentSetting_def split: option.splits SettingType.splits SettingValue.splits)

lemma applyOptimalSettings_ui_index [simp]:
  "selectedIndex (fst (applyOptimalSettings_ui sh S)) = selectedIndex (fst S)"
  by (simp add: applyOptimalSettings_ui_def Let_def)

lemma resetToDefaults_ui_index [simp]:
  "selectedIndex (fst (resetToDefaults_ui sh S)) = selectedIndex (fst S)"
  by (simp add: resetToDefaults_ui_def Let_def)

lemma useInput_index:
  "selectedIndex (fst (useInput sh input k S)) =
     (if dtype (dialog (fst S)) \<noteq> DNone then selectedIndex (fst S)
      else if upArrow k then max 0 (selectedIndex (fst S) - 1)
      else if downArrow k
      then min (int (length (visibleSettings (fst S))) - 1) (selectedIndex (fst S) + 1)
      else selectedIndex (fst S))"
  by (simp add: useInput_def Let_def)

lemma useInput_arrow_visible:
  "dtype (dialog (fst S)) = DNone \<Longrightarrow> upArrow k \<or> downArrow k \<Longrightarrow>
   visibleSettings (fst (useInput sh input k S)) = visibleSettings (fst S)"
  by (cases "upArrow k") (simp_all add: useInput_def)

lemma fold_hide_index:
  "selectedIndex (fold (\<lambda>t s. hideNotification s) xs st) = selectedIndex st"
  by (induction xs arbitrary: st) (simp_all add: hideNotification_def)

lemma useInput_down:
  "dtype (dialog (fst S)) = DNone \<Longrightarrow>
   useInput sh input downKey S =
     ((fst S)\<lparr> selectedIndex :=
         min (int (length (visibleSettings (fst S))) - 1) (selectedIndex (fst S) + 1) \<rparr>, snd S)"
  by (simp add: useInput_def downKey_def noKey_def)

lemma down_funpow:
  "dtype (dialog (fst S)) = DNone \<Longrightarrow>
   selectedIndex (fst S) + int n \<le> int (length (visibleSettings (fst S))) - 1 \<Longrightarrow>
   ((useInput sh input downKey) ^^ n) S =
     ((fst S)\<lparr> selectedIndex := selectedIndex (fst S) + int n \<rparr>, snd S)"
proof (induction n)
  case 0
  then show ?case by simp
next
  case (Suc n)
  then have ih: "((useInput sh input downKey) ^^ n) S =
     ((fst S)\<lparr> selectedIndex := selectedIndex (fst S) + int n \<rparr>, snd S)"
    by simp
  show ?case
    using Suc.prems by (simp add: ih useInput_down min_def)
qed

text \<open>
  An adjustment does not move the cursor. The selected row stays among the visible
  settings when the refresh changes no automatic mode other than the one the row
  toggles: the manual value a toggle hides is below the toggle.
\<close>

lemma selected_survives:
  assumes sel: "at (visibleSettings st) i = Some s"
    and e: "key s \<noteq> ''autoExposure'' \<longrightarrow>
           autoExposure (currentSettings st2) = autoExposure (currentSettings st)"
    and f: "key s \<noteq> ''autoFocus'' \<longrightarrow>
           autoFocus (currentSettings st2) = autoFocus (currentSettings st)"
    and w: "key s \<noteq> ''autoWhiteBalance'' \<longrightarrow>
           autoWhiteBalance (currentSettings st2) = autoWhiteBalance (currentSettings st)"
  shows "i \<le> int (length (visibleSettings st2)) - 1"
proof -
  from sel have r: "i < int (length (visibleSettings st))"
    by (auto simp: at_def split: if_splits)
  note t = selected_toggle_row [OF sel]
  note b = visibleSettings_bounds [of st2]
  consider (ae) "key s = ''autoExposure''" | (af) "key s = ''autoFocus''"
    | (awb) "key s = ''autoWhiteBalance''"
    | (other) "key s \<noteq> ''autoExposure''" "key s \<noteq> ''autoFocus''" "key s \<noteq> ''autoWhiteBalance''"
    by blast
  then show ?thesis
  proof cases
    case ae
    with t have "i = 8" by simp
    with b show ?thesis by linarith
  next
    case af
    with t have i: "i = (if autoExposure (currentSettings st) then 9 else 10)" by simp
    from af e have "autoExposure (currentSettings st2) = autoExposure (currentSettings st)"
      by simp
    then show ?thesis
      unfolding i length_visibleSettings [of st2] by (simp split: if_splits)
  next
    case awb
    with t have i: "i = (if autoExposure (currentSettings st) then 11 else 12)
                - (if autoFocus (currentSettings st) then 1 else 0)" by simp
    from awb e f have "autoExposure (currentSettings st2) = autoExposure (currentSettings st)"
      "autoFocus (currentSettings st2) = autoFocus (currentSettings st)"
      by simp_all
    then show ?thesis
      unfolding i length_visibleSettings [of st2] by (simp split: if_splits)
  next
    case other
    with e f w have "length (visibleSettings st2) = length (visibleSettings st)"
      by (simp add: length_visibleSettings)
    with r show ?thesis by linarith
  qed
qed

lemma adjust_keeps_selection:
  assumes "at (visibleSettings (fst S)) (selectedIndex (fst S)) = Some s"
    and "key s \<noteq> ''autoExposure'' \<longrightarrow>
           autoExposure (currentSettings (fst (adjustCurrentSetting sh delta S))) =
           autoExposure (currentSettings (fst S))"
    and "key s \<noteq> ''autoFocus'' \<longrightarrow>
           autoFocus (currentSettings (fst (adjustCurrentSetting sh delta S))) =
           autoFocus (currentSettings (fst S))"
    and "key s \<noteq> ''autoWhiteBalance'' \<longrightarrow>
           autoWhiteBalance (currentSettings (fst (adjustCurrentSetting sh delta S))) =
           autoWhiteBalance (currentSettings (fst S))"
  shows "selectedIndex (fst (adjustCurrentSetting sh delta S))
           \<le> int (length (visibleSettings (fst (adjustCurrentSetting sh delta S)))) - 1"
  using selected_survives [OF assms] by simp

lemma refreshSettings_busy_irrelevant:
  "refreshSettings sh (st\<lparr> deviceBusy := b \<rparr>, W) = refreshSettings sh (st, W)"
  by (simp add: refreshSettings_def Let_def)

lemma showNotification_busy_commute:
  "showNotification m t (st\<lparr> deviceBusy := b \<rparr>) = (showNotification m t st)\<lparr> deviceBusy := b \<rparr>"
  by (simp add: showNotification_def)

lemma applySetting_busy_irrelevant:
  "applySetting sh k v (st\<lparr> deviceBusy := b \<rparr>, W) = applySetting sh k v (st, W)"
  by (simp add: applySetting_def refreshSettings_busy_irrelevant)

lemma applySelectSetting_busy_irrelevant:
  "applySelectSetting sh k v (st\<lparr> deviceBusy := b \<rparr>, W) = applySelectSetting sh k v (st, W)"
  by (simp add: applySelectSetting_def Let_def notifyIfBusy_def showNotification_busy_commute
        refreshSettings_busy_irrelevant)

lemma adjust_busy_irrelevant:
  assumes "at (visibleSettings st) (selectedIndex st) = Some s"
    and "key s \<notin> set [''resolution'', ''format'', ''framerate'']"
  shows "snd (adjustCurrentSetting sh delta (st\<lparr> deviceBusy := b \<rparr>, W)) =
           snd (adjustCurrentSetting sh delta (st, W))
         \<and> (fst (adjustCurrentSetting sh delta (st\<lparr> deviceBusy := b \<rparr>, W)))\<lparr> deviceBusy := c \<rparr> =
           (fst (adjustCurrentSetting sh delta (st, W)))\<lparr> deviceBusy := c \<rparr>"
  using assms
  by (simp add: adjustCurrentSetting_def applySetting_busy_irrelevant
        applySelectSetting_busy_irrelevant showNotification_busy_commute
        split: SettingType.splits SettingValue.splits option.splits)

lemma resetToDefaults_ui_dialog: "dialog (fst (resetToDefaults_ui sh S)) = noDialog"
  by (simp add: resetToDefaults_ui_def Let_def)

lemma resetToDefaults_ui_notification:
  "\<not> allOk (fst (resetToDefaults sh (snd S))) \<Longrightarrow> errors (fst (resetToDefaults sh (snd S))) \<noteq> [] \<Longrightarrow>
   notification (fst (resetToDefaults_ui sh S)) =
     \<lparr> message = ''Resetting to factory defaults...'', ntype = NInfo, visible = True \<rparr>"
  by (simp add: resetToDefaults_ui_def Let_def refreshSettings_fst showNotification_def)

lemma optimize_failure_dialog:
  "errors (fst (applyOptimalSettings sh (snd S))) \<noteq> [] \<Longrightarrow>
   dialog (fst (applyOptimalSettings_ui sh S)) =
     \<lparr> dtype = DError, title = Some ''Optimal Settings - Partial Success'',
       dmessage = Some (join ''. '' (errors (fst (applyOptimalSettings sh (snd S)))) @ ''.'') \<rparr>"
  by (simp add: applyOptimalSettings_ui_def Let_def applyOptimalSettings_allOk refreshSettings_fst)

lemma applyOptimalSettings_ui_settings:
  "currentSettings (fst (applyOptimalSettings_ui sh S)) =
     fst (getCurrentSettings sh (snd (applyOptimalSettings sh (snd S))))"
  by (simp add: applyOptimalSettings_ui_def Let_def refreshSettings_fst showNotification_def)

text \<open>
  The commands of a refresh are reads; those of the reset handler are the reset
  sequence followed by a refresh.
\<close>

lemma getCurrentVideoFormat_trace_cases:
  "snd (snd (getCurrentVideoFormat sh W)) = snd W @ [GetFmtVideo]
   \<or> snd (snd (getCurrentVideoFormat sh W)) = snd W @ [GetFmtVideo, GetParm]"
  by (simp add: getCurrentVideoFormat_def Let_def execSync_def split: exec_out.splits)

lemma refreshSettings_reads:
  "\<exists>reads. snd (snd (refreshSettings sh S)) = snd (snd S) @ reads
     \<and> set reads \<subseteq> insert GetFmtVideo (insert GetParm (range GetCtrl))"
proof -
  let ?W1 = "snd (getCurrentSettings sh (snd S))"
  let ?W2 = "snd (getCurrentVideoFormat sh ?W1)"
  let ?gets = "map GetCtrl [''brightness'', ''contrast'', ''saturation'', ''sharpness'', ''gain'',
       ''auto_exposure'', ''focus_automatic_continuous'', ''white_balance_automatic'',
       ''power_line_frequency'', ''exposure_time_absolute'', ''focus_absolute'',
       ''white_balance_temperature'']"
  have t: "snd (snd (refreshSettings sh S)) = snd ?W2 @ [GetFmtVideo]"
    by (simp add: refreshSettings_def Let_def getDeviceStatus_trace)
  have g: "snd ?W1 = snd (snd S) @ ?gets" by (rule getCurrentSettings_trace)
  have "set ?gets \<subseteq> range GetCtrl" by (simp only: set_map image_mono subset_UNIV)
  then have r: "set ?gets \<subseteq> insert GetFmtVideo (insert GetParm (range GetCtrl))" by blast
  from getCurrentVideoFormat_trace_cases [of sh ?W1]
  show ?thesis
  proof
    assume "snd ?W2 = snd ?W1 @ [GetFmtVideo]"
    then have "snd (snd (refreshSettings sh S)) =
        snd (snd S) @ (?gets @ [GetFmtVideo, GetFmtVideo])"
      using t g by simp
    moreover have "set (?gets @ [GetFmtVideo, GetFmtVideo])
        \<subseteq> insert GetFmtVideo (insert GetParm (range GetCtrl))"
      using r by auto
    ultimately show ?thesis by blast
  next
    assume "snd ?W2 = snd ?W1 @ [GetFmtVideo, GetParm]"
    then have "snd (snd (refreshSettings sh S)) =
        snd (snd S) @ (?gets @ [GetFmtVideo, GetParm, GetFmtVideo])"
      using t g by simp
    moreover have "set (?gets @ [GetFmtVideo, GetParm, GetFmtVideo])
        \<subseteq> insert GetFmtVideo (insert GetParm (range GetCtrl))"
      using r by auto
    ultimately show ?thesis by blast
  qed
qed

lemma resetToDefaults_ui_snd:
  "snd (resetToDefaults_ui sh S) =
     snd (refreshSettings sh (fst S, snd (resetToDefaults sh (snd S))))"
  by (simp add: resetToDefaults_ui_def Let_def refreshSettings_def)

lemma resetToDefaults_ui_commands:
  "\<exists>reads. snd (snd (resetToDefaults_ui sh S)) =
       snd (snd S) @
       [SetFmtVideo (Some 640) (Some 480) ''YUYV'', SetParm (Some 30),
        SetCtrl ''brightness'' 128, SetCtrl ''contrast'' 128,
        SetCtrl ''saturation'' 128, SetCtrl ''sharpness'' 128, SetCtrl ''gain'' 0,
        SetCtrl ''auto_exposure'' 1, SetCtrl ''focus_automatic_continuous'' 0,
        SetCtrl ''white_balance_automatic'' 1, SetCtrl ''power_line_frequency'' 1,
        SetCtrl ''backlight_compensation'' 0] @ reads
     \<and> set reads \<subseteq> insert GetFmtVideo (insert GetParm (range GetCtrl))"
proof -
  from refreshSettings_reads [of sh "(fst S, snd (resetToDefaults sh (snd S)))"]
  obtain reads where r: "snd (snd (refreshSettings sh (fst S, snd (resetToDefaults sh (snd S))))) =
      snd (snd (resetToDefaults sh (snd S))) @ reads"
    and s: "set reads \<subseteq> insert GetFmtVideo (insert GetParm (range GetCtrl))"
    by auto
  have "snd (snd (resetToDefaults_ui sh S)) =
       snd (snd S) @
       [SetFmtVideo (Some 640) (Some 480) ''YUYV'', SetParm (Some 30),
        SetCtrl ''brightness'' 128, SetCtrl ''contrast'' 128,
        SetCtrl ''saturation'' 128, SetCtrl ''sharpness'' 128, SetCtrl ''gain'' 0,
        SetCtrl ''auto_exposure'' 1, SetCtrl ''focus_automatic_continuous'' 0,
        SetCtrl ''white_balance_automatic'' 1, SetCtrl ''power_line_frequency'' 1,
        SetCtrl ''backlight_compensation'' 0] @ reads"
    by (simp only: resetToDefaults_ui_snd r resetToDefaults_trace append_assoc)
  with s show ?thesis by blast
qed

lemma resetToDefaults_ui_settings:
  "currentSettings (fst (resetToDefaults_ui sh S)) =
     fst (getCurrentSettings sh (snd (resetToDefaults sh (snd S))))"
  by (simp add: resetToDefaults_ui_def Let_def refreshSettings_fst showNotification_def)

lemma resetToDefaults_ui_success:
  "allOk (fst (resetToDefaults sh (snd S))) \<Longrightarrow>
   notification (fst (resetToDefaults_ui sh S)) =
     \<lparr> message = ''Factory defaults restored successfully!'', ntype = NSuccess, visible = True \<rparr>"
  by (simp add: resetToDefaults_ui_def Let_def refreshSettings_fst showNotification_def)

text \<open>
  Refreshing only reads the device, so a write to a control in the command list comes
  from the setter the adjusted key selects.
\<close>

lemma refreshSettings_no_write:
  "SetCtrl n v \<in> set (snd (snd (refreshSettings sh S))) \<longleftrightarrow> SetCtrl n v \<in> set (snd (snd S))"
proof -
  let ?W1 = "snd (getCurrentSettings sh (snd S))"
  let ?W2 = "snd (getCurrentVideoFormat sh ?W1)"
  have t: "snd (snd (refreshSettings sh S)) = snd ?W2 @ [GetFmtVideo]"
    by (simp add: refreshSettings_def Let_def getDeviceStatus_trace)
  have a: "set (snd ?W2) \<subseteq> set (snd ?W1) \<union> {GetFmtVideo, GetParm}"
    by (rule getCurrentVideoFormat_trace)
  have b: "set (snd (snd S)) \<subseteq> set (snd ?W2)"
    by (auto simp: getCurrentVideoFormat_def Let_def execSync_def getCurrentSettings_trace
          split: exec_out.splits)
  have c: "SetCtrl n v \<in> set (snd ?W1) \<longleftrightarrow> SetCtrl n v \<in> set (snd (snd S))"
    by (auto simp: getCurrentSettings_trace)
  show ?thesis using t a b c by auto
qed

lemma applySetting_writes:
  "SetCtrl n v \<in> set (snd (snd (applySetting sh k x S))) \<Longrightarrow>
   SetCtrl n v \<notin> set (snd (snd S)) \<Longrightarrow>
     (n = ''exposure_time_absolute'' \<longrightarrow> k = ''exposureValue'') \<and>
     (n = ''focus_absolute'' \<longrightarrow> k = ''focusValue'') \<and>
     (n = ''white_balance_temperature'' \<longrightarrow> k = ''whiteBalanceValue'')"
  by (simp add: applySetting_def refreshSettings_no_write setter_defs setControl_trace
        split: if_splits)

lemma applySelectSetting_writes:
  "SetCtrl n v \<in> set (snd (snd (applySelectSetting sh k x S))) \<Longrightarrow>
   SetCtrl n v \<notin> set (snd (snd S)) \<Longrightarrow> n = ''power_line_frequency''"
  by (simp add: applySelectSetting_def Let_def refreshSettings_no_write setter_defs
        setControl_trace setVideoFormat_trace setFrameRate_trace split: if_splits)

lemma adjust_writes:
  assumes "SetCtrl n v \<in> set (snd (snd (adjustCurrentSetting sh delta S)))"
    and "SetCtrl n v \<notin> set (snd (snd S))"
    and "n \<in> set [''exposure_time_absolute'', ''focus_absolute'', ''white_balance_temperature'']"
  shows "\<exists>s \<in> set (visibleSettings (fst S)).
           (n = ''exposure_time_absolute'' \<longrightarrow> key s = ''exposureValue'') \<and>
           (n = ''focus_absolute'' \<longrightarrow> key s = ''focusValue'') \<and>
           (n = ''white_balance_temperature'' \<longrightarrow> key s = ''whiteBalanceValue'')"
proof (cases "at (visibleSettings (fst S)) (selectedIndex (fst S))")
  case None
  with assms(1,2) show ?thesis by (simp add: adjustCurrentSetting_def)
next
  case (Some s)
  then have mem: "s \<in> set (visibleSettings (fst S))" by (rule at_Some_mem)
  have "(n = ''exposure_time_absolute'' \<longrightarrow> key s = ''exposureValue'') \<and>
        (n = ''focus_absolute'' \<longrightarrow> key s = ''focusValue'') \<and>
        (n = ''white_balance_temperature'' \<longrightarrow> key s = ''whiteBalanceValue'')"
    using assms Some applySetting_writes [of n v sh "key s" _ S]
      applySelectSetting_writes [of n v sh "key s" _ S]
    by (auto simp: adjustCurrentSetting_def showNotification_def
          split: if_splits SettingType.splits SettingValue.splits option.splits)
  with mem show ?thesis by blast
qed

subsection \<open>The bench camera\<close>

lemma bench_getControl:
  "getControl bench n (cam, tr) = (reg cam n, (cam, tr @ [GetCtrl n]))"
  by (simp add: getControl_def execSync_def bench_def reg_def silent_def orElse_def
        split: option.splits)

lemma bench_setControl:
  "setControl bench n v (cam, tr) =
     (True, (cam\<lparr> controls := (n, v) # filter (\<lambda>p. fst p \<noteq> n) (controls cam) \<rparr>,
             tr @ [SetCtrl n v]))"
  by (simp add: setControl_def execSync_def bench_def)

lemma bench_getCurrentSettings:
  "getCurrentSettings bench (cam, tr) =
     (\<lparr> brightness = orElse (reg cam ''brightness'') 128,
        contrast = orElse (reg cam ''contrast'') 128,
        saturation = orElse (reg cam ''saturation'') 128,
        sharpness = orElse (reg cam ''sharpness'') 128,
        gain = reg cam ''gain'',
        autoExposure = (reg cam ''auto_exposure'' = 3),
        autoFocus = (reg cam ''focus_automatic_continuous'' = 1),
        autoWhiteBalance = (reg cam ''white_balance_automatic'' = 1),
        powerLineFrequency = orElse (reg cam ''power_line_frequency'') 2,
        exposureValue = orElse (reg cam ''exposure_time_absolute'') 250,
        focusValue = reg cam ''focus_absolute'',
        whiteBalanceValue = orElse (reg cam ''white_balance_temperature'') 4000 \<rparr>,
      (cam, tr @ map GetCtrl [''brightness'', ''contrast'', ''saturation'', ''sharpness'',
         ''gain'', ''auto_exposure'', ''focus_automatic_continuous'',
         ''white_balance_automatic'', ''power_line_frequency'', ''exposure_time_absolute'',
         ''focus_absolute'', ''white_balance_temperature'']))"
  by (simp add: getCurrentSettings_def Let_def bench_getControl orElse_def)

lemma bench_getCurrentVideoFormat:
  "getCurrentVideoFormat bench (cam, tr) =
     (if held cam then (fallbackFormat, (cam, tr @ [GetFmtVideo]))
      else (\<lparr> width = camWidth cam, height = camHeight cam, pixelFormat = camPixel cam,
               frameRate = camRate cam \<rparr>, (cam, tr @ [GetFmtVideo, GetParm])))"
  by (simp add: getCurrentVideoFormat_def Let_def execSync_def bench_def silent_def)

lemma busy_text: "includesStr ''Device or resource busy'' ''Device or resource busy''"
  by simp

lemma bench_getDeviceStatus:
  "getDeviceStatus bench (cam, tr) =
     (\<lparr> available = True, inUse = held cam, statusError = None \<rparr>, (cam, tr @ [GetFmtVideo]))"
  by (simp add: getDeviceStatus_def Let_def execSync_def bench_def busy_text del: includesStr.simps)

lemma bench_refreshSettings:
  "refreshSettings bench (st, (cam, tr)) =
     (st\<lparr> currentSettings := fst (getCurrentSettings bench (cam, [])),
          currentFormat := fst (getCurrentVideoFormat bench (cam, [])),
          deviceBusy := held cam \<rparr>,
      (cam, snd (snd (refreshSettings bench (st, (cam, tr))))))"
  by (simp add: refreshSettings_def Let_def bench_getCurrentSettings bench_getCurrentVideoFormat
        bench_getDeviceStatus)

lemma bench_setVideoFormat:
  "setVideoFormat bench (Some w) (Some h) p (cam, tr) =
     (if held cam then (\<lparr> success = False, error = Some ''DEVICE_BUSY'' \<rparr>, (cam, tr @ [SetFmtVideo (Some w) (Some h) p]))
      else (\<lparr> success = True, error = None \<rparr>,
            (cam\<lparr> camWidth := w, camHeight := h, camPixel := p \<rparr>, tr @ [SetFmtVideo (Some w) (Some h) p])))"
  by (simp add: setVideoFormat_def Let_def execSync_def bench_def setOutcome_def busy_text
        del: includesStr.simps)

lemma bench_setFrameRate:
  "setFrameRate bench (Some f) (cam, tr) =
     (if held cam then (\<lparr> success = False, error = Some ''DEVICE_BUSY'' \<rparr>, (cam, tr @ [SetParm (Some f)]))
      else (\<lparr> success = True, error = None \<rparr>, (cam\<lparr> camRate := f \<rparr>, tr @ [SetParm (Some f)])))"
  by (simp add: setFrameRate_def Let_def execSync_def bench_def setOutcome_def busy_text
        del: includesStr.simps)

lemma bench_held: "held (snd (bench cam c)) = held cam"
  by (cases c) (simp_all add: bench_def split: option.splits)

lemma execSync_held: "held (fst (snd (execSync bench c W))) = held (fst W)"
  by (simp add: execSync_def bench_held)

lemma setControl_held: "held (fst (snd (setControl bench n v W))) = held (fst W)"
  by (simp add: setControl_def Let_def execSync_held)

lemma setVideoFormat_held: "held (fst (snd (setVideoFormat bench w h p W))) = held (fst W)"
  by (simp add: setVideoFormat_def Let_def execSync_held)

lemma setFrameRate_held: "held (fst (snd (setFrameRate bench f W))) = held (fst W)"
  by (simp add: setFrameRate_def Let_def execSync_held)

lemma resetToDefaults_held: "held (fst (snd (resetToDefaults bench W))) = held (fst W)"
  by (simp add: resetToDefaults_def Let_def setter_defs setControl_held setVideoFormat_held
        setFrameRate_held)

lemma setVideoFormat_refused:
  "held (fst W) \<Longrightarrow>
   fst (setVideoFormat bench w h p W) = \<lparr> success = False, error = Some ''DEVICE_BUSY'' \<rparr>"
  by (simp add: setVideoFormat_def Let_def execSync_def bench_def setOutcome_def busy_text
        del: includesStr.simps)

lemma setFrameRate_refused:
  "held (fst W) \<Longrightarrow>
   fst (setFrameRate bench f W) = \<lparr> success = False, error = Some ''DEVICE_BUSY'' \<rparr>"
  by (simp add: setFrameRate_def Let_def execSync_def bench_def setOutcome_def busy_text
        del: includesStr.simps)

lemma bench_reset_held:
  "held (fst W) \<Longrightarrow>
     \<not> allOk (fst (resetToDefaults bench W)) \<and>
     errors (fst (resetToDefaults bench W)) =
       [''Cannot reset video format: camera is in use by another application'',
        ''Cannot reset frame rate: camera is in use by another application'']"
  by (simp add: resetToDefaults_allOk resetToDefaults_errors setVideoFormat_refused
        setFrameRate_refused setVideoFormat_held stepErrors_def)

lemma bench_optimal_held:
  "held (fst W) \<Longrightarrow>
     errors (fst (applyOptimalSettings bench W)) =
       [''Cannot change video format: camera is in use by another application'',
        ''Cannot change frame rate: camera is in use by another application'']"
  by (simp add: applyOptimalSettings_errors setVideoFormat_refused
        setFrameRate_refused setVideoFormat_held stepErrors_def)

lemma bench_optimal_camera:
  "\<not> held cam \<Longrightarrow> reg (fst (snd (applyOptimalSettings bench (cam, tr)))) ''auto_exposure'' = 3
     \<and> reg (fst (snd (applyOptimalSettings bench (cam, tr)))) ''focus_automatic_continuous'' = 1
     \<and> reg (fst (snd (applyOptimalSettings bench (cam, tr)))) ''white_balance_automatic'' = 1"
  by (simp add: applyOptimalSettings_def Let_def setter_defs bench_setControl
        bench_setVideoFormat bench_setFrameRate reg_def)

lemma refreshSettings_busy: "deviceBusy (fst (refreshSettings bench S)) = held (fst (snd S))"
proof -
  obtain st cam tr where s: "S = (st, (cam, tr))" by (cases S) auto
  show ?thesis unfolding s by (subst bench_refreshSettings) simp
qed

lemma resetToDefaults_ui_busy:
  "deviceBusy (fst (resetToDefaults_ui bench S)) = held (fst (snd S))"
  by (simp add: resetToDefaults_ui_def Let_def refreshSettings_busy resetToDefaults_held
        showNotification_def)

lemma bench_free_format:
  "\<not> held cam \<Longrightarrow>
     fst (bench cam (SetFmtVideo (Some w) (Some h) p)) = Returned silent
     \<and> \<not> held (snd (bench cam (SetFmtVideo (Some w) (Some h) p)))
     \<and> fst (bench cam (SetParm (Some r))) = Returned silent"
  by (simp add: bench_def)

subsection \<open>The runs\<close>

lemma benchStart_fst:
  "fst benchStart =
     \<lparr> currentSettings =
         \<lparr> brightness = 100, contrast = 128, saturation = 128, sharpness = 128, gain = 10,
           autoExposure = False, autoFocus = False, autoWhiteBalance = False,
           powerLineFrequency = 1, exposureValue = 250, focusValue = 30,
           whiteBalanceValue = 4000 \<rparr>,
       currentFormat = \<lparr> width = 1280, height = 720, pixelFormat = ''MJPG'', frameRate = 30 \<rparr>,
       selectedIndex = 0, deviceBusy = False, dialog = noDialog,
       notification = \<lparr> message = [], ntype = NInfo, visible = False \<rparr>,
       clock = 0, timers = [], exited = False \<rparr>"
  by (simp add: benchStart_def initialState_def Let_def bench_getCurrentSettings
        bench_getCurrentVideoFormat manualCamera_def reg_def orElse_def)

lemma benchStart_camera: "fst (snd benchStart) = manualCamera"
  by (simp add: benchStart_def initialState_def Let_def bench_getCurrentSettings
        bench_getCurrentVideoFormat manualCamera_def)

lemma benchStart_clock: "clock (fst benchStart) = 0 \<and> timers (fst benchStart) = []"
  by (simp add: benchStart_fst)

lemma scrolledToEnd_eq:
  "scrolledToEnd = ((fst benchStart)\<lparr> selectedIndex := 14 \<rparr>, snd benchStart)"
proof -
  have d: "dtype (dialog (fst benchStart)) = DNone"
    by (simp add: benchStart_fst noDialog_def)
  have n: "selectedIndex (fst benchStart) + int 14 \<le> int (length (visibleSettings (fst benchStart))) - 1"
    by (simp add: length_visibleSettings benchStart_fst)
  have i: "selectedIndex (fst benchStart) = 0"
    by (simp add: benchStart_fst)
  show ?thesis
    unfolding scrolledToEnd_def using down_funpow [OF d n, of bench "[]"] i by simp
qed

lemma scrolledToEnd_facts:
  "selectedIndex (fst scrolledToEnd) = 14 \<and> length (visibleSettings (fst scrolledToEnd)) = 15
   \<and> dtype (dialog (fst scrolledToEnd)) = DNone \<and> \<not> deviceBusy (fst scrolledToEnd)"
  by (simp add: scrolledToEnd_eq length_visibleSettings benchStart_fst noDialog_def)

lemma scrolledToEnd_selected:
  "at (visibleSettings (fst scrolledToEnd)) (selectedIndex (fst scrolledToEnd)) =
     Some (selectItem ''powerLineFrequency'' ''50Hz'' [''Disabled'', ''50Hz'', ''60Hz''])"
  by (simp add: scrolledToEnd_eq benchStart_fst visibleSettings_def settings_def
        shouldShowSetting_def at_def selectItem_def rangeItem_def toggleItem_def
        getPowerLineDisplay_def)

lemma onExposure_eq:
  "onExposure = ((fst benchStart)\<lparr> selectedIndex := 9 \<rparr>, snd benchStart)"
proof -
  have d: "dtype (dialog (fst benchStart)) = DNone"
    by (simp add: benchStart_fst noDialog_def)
  have n: "selectedIndex (fst benchStart) + int 9 \<le> int (length (visibleSettings (fst benchStart))) - 1"
    by (simp add: length_visibleSettings benchStart_fst)
  have i: "selectedIndex (fst benchStart) = 0"
    by (simp add: benchStart_fst)
  show ?thesis
    unfolding onExposure_def using down_funpow [OF d n, of bench "[]"] i by simp
qed

lemma onExposure_selected:
  "at (visibleSettings (fst onExposure)) (selectedIndex (fst onExposure)) =
     Some (rangeItem ''exposureValue'' 250 3 2047 1)"
  by (simp add: onExposure_eq benchStart_fst visibleSettings_def settings_def
        shouldShowSetting_def at_def selectItem_def rangeItem_def toggleItem_def)

lemma onExposure_left:
  "adjustCurrentSetting bench (- 1) onExposure =
     applySetting bench ''exposureValue'' (SNum 249) onExposure"
proof -
  have b: "\<not> deviceBusy (fst onExposure)"
    and m: "\<not> isManualControlDisabled (currentSettings (fst onExposure)) ''exposureValue''"
    by (simp_all add: onExposure_eq benchStart_fst isManualControlDisabled_def)
  show ?thesis
    using onExposure_selected b m
    by (simp add: adjustCurrentSetting_def rangeItem_def rangeNewValue_def optOrElse_def
          orElse_def)
qed

lemma onExposure_left_settings:
  "currentSettings (fst (adjustCurrentSetting bench (- 1) onExposure)) =
     (currentSettings (fst onExposure))\<lparr> exposureValue := 249 \<rparr>"
proof -
  obtain tr where w: "snd onExposure = (manualCamera, tr)"
    using benchStart_camera by (cases "snd benchStart") (simp add: onExposure_eq)
  obtain cam' tr' where c: "snd (setExposureValue bench 249 (manualCamera, tr)) = (cam', tr')"
    by (cases "snd (setExposureValue bench 249 (manualCamera, tr))")
  have cam: "cam' = manualCamera\<lparr> controls := (''exposure_time_absolute'', 249) #
      filter (\<lambda>p. fst p \<noteq> ''exposure_time_absolute'') (controls manualCamera) \<rparr>"
    using c by (simp add: setExposureValue_def bench_setControl)
  have "currentSettings (fst (adjustCurrentSetting bench (- 1) onExposure)) =
      fst (getCurrentSettings bench (cam', tr'))"
    by (simp add: onExposure_left applySetting_def refreshSettings_fst w c)
  also have "\<dots> = (currentSettings (fst onExposure))\<lparr> exposureValue := 249 \<rparr>"
    by (simp add: bench_getCurrentSettings cam manualCamera_def reg_def orElse_def
          onExposure_eq benchStart_fst)
  finally show ?thesis .
qed

lemma afterOptimize_facts:
  "selectedIndex (fst afterOptimize) = 14 \<and> length (visibleSettings (fst afterOptimize)) = 12"
proof -
  have i: "selectedIndex (fst afterOptimize) = 14"
    by (simp add: afterOptimize_def useInput_index scrolledToEnd_eq benchStart_fst noDialog_def noKey_def)
  have u: "afterOptimize = applyOptimalSettings_ui bench scrolledToEnd"
    by (simp add: afterOptimize_def useInput_def scrolledToEnd_eq benchStart_fst noDialog_def noKey_def)
  obtain tr where w: "snd scrolledToEnd = (manualCamera, tr)"
    using benchStart_camera by (cases "snd benchStart") (simp add: scrolledToEnd_eq)
  have h: "\<not> held manualCamera" by (simp add: manualCamera_def)
  obtain cam' tr' where c: "snd (applyOptimalSettings bench (manualCamera, tr)) = (cam', tr')"
    by (cases "snd (applyOptimalSettings bench (manualCamera, tr))")
  have r: "reg cam' ''auto_exposure'' = 3 \<and> reg cam' ''focus_automatic_continuous'' = 1
     \<and> reg cam' ''white_balance_automatic'' = 1"
    using bench_optimal_camera [OF h, of tr] c by simp
  have s: "currentSettings (fst afterOptimize) = fst (getCurrentSettings bench (cam', tr'))"
    by (simp add: u applyOptimalSettings_ui_settings w c)
  have "length (visibleSettings (fst afterOptimize)) = 12"
    by (simp add: length_visibleSettings s bench_getCurrentSettings r)
  with i show ?thesis by simp
qed

lemma afterOptimize_autos:
  "autoExposure (currentSettings (fst afterOptimize)) \<and>
   autoFocus (currentSettings (fst afterOptimize)) \<and>
   autoWhiteBalance (currentSettings (fst afterOptimize))"
proof -
  have u: "afterOptimize = applyOptimalSettings_ui bench scrolledToEnd"
    by (simp add: afterOptimize_def useInput_def scrolledToEnd_eq benchStart_fst noDialog_def noKey_def)
  obtain tr where w: "snd scrolledToEnd = (manualCamera, tr)"
    using benchStart_camera by (cases "snd benchStart") (simp add: scrolledToEnd_eq)
  have h: "\<not> held manualCamera" by (simp add: manualCamera_def)
  obtain cam' tr' where c: "snd (applyOptimalSettings bench (manualCamera, tr)) = (cam', tr')"
    by (cases "snd (applyOptimalSettings bench (manualCamera, tr))")
  have r: "reg cam' ''auto_exposure'' = 3 \<and> reg cam' ''focus_automatic_continuous'' = 1
     \<and> reg cam' ''white_balance_automatic'' = 1"
    using bench_optimal_camera [OF h, of tr] c by simp
  have s: "currentSettings (fst afterOptimize) = fst (getCurrentSettings bench (cam', tr'))"
    by (simp add: u applyOptimalSettings_ui_settings w c)
  show ?thesis by (simp add: s bench_getCurrentSettings r)
qed

lemma heldStart_fst:
  "fst heldStart =
     \<lparr> currentSettings =
         \<lparr> brightness = 100, contrast = 128, saturation = 128, sharpness = 128, gain = 10,
           autoExposure = False, autoFocus = False, autoWhiteBalance = False,
           powerLineFrequency = 1, exposureValue = 250, focusValue = 30,
           whiteBalanceValue = 4000 \<rparr>,
       currentFormat = fallbackFormat,
       selectedIndex = 0, deviceBusy = False, dialog = noDialog,
       notification = \<lparr> message = [], ntype = NInfo, visible = False \<rparr>,
       clock = 0, timers = [], exited = False \<rparr>"
  by (simp add: heldStart_def initialState_def Let_def bench_getCurrentSettings
        bench_getCurrentVideoFormat heldCamera_def manualCamera_def reg_def orElse_def)

lemma heldStart_camera: "fst (snd heldStart) = heldCamera"
  by (simp add: heldStart_def initialState_def Let_def bench_getCurrentSettings
        bench_getCurrentVideoFormat heldCamera_def manualCamera_def)

lemma heldConfirm_eq:
  "heldConfirm =
     ((fst heldStart)\<lparr> dialog :=
         \<lparr> dtype = DReset, title = Some ''Reset to Factory Defaults'',
           dmessage = Some (''This will reset all settings to factory defaults.'' @ [CHR 0x0A] @
                            ''Are you sure you want to continue?'') \<rparr> \<rparr>,
      snd heldStart)"
  by (simp add: heldConfirm_def useInput_def heldStart_fst noDialog_def noKey_def)

lemma heldReset_eq:
  "heldReset = resetToDefaults_ui bench ((fst heldStart)\<lparr> dialog := noDialog \<rparr>, snd heldStart)"
  by (simp add: heldReset_def useInput_def heldConfirm_eq)

lemma heldReset_facts:
  "dialog (fst heldReset) = noDialog
   \<and> notification (fst heldReset) =
       \<lparr> message = ''Resetting to factory defaults...'', ntype = NInfo, visible = True \<rparr>
   \<and> deviceBusy (fst heldReset) \<and> selectedIndex (fst heldReset) = 0"
proof -
  obtain tr where w: "snd heldStart = (heldCamera, tr)"
    using heldStart_camera by (cases "snd heldStart") simp
  have h: "held heldCamera" by (simp add: heldCamera_def)
  have r: "\<not> allOk (fst (resetToDefaults bench (heldCamera, tr))) \<and>
     errors (fst (resetToDefaults bench (heldCamera, tr))) =
       [''Cannot reset video format: camera is in use by another application'',
        ''Cannot reset frame rate: camera is in use by another application'']"
    using bench_reset_held [of "(heldCamera, tr)"] h by simp
  have n: "notification (fst heldReset) =
       \<lparr> message = ''Resetting to factory defaults...'', ntype = NInfo, visible = True \<rparr>"
    unfolding heldReset_eq using r by (intro resetToDefaults_ui_notification) (simp_all add: w)
  have b: "deviceBusy (fst heldReset)"
    using h by (simp add: heldReset_eq w resetToDefaults_ui_busy)
  have i: "selectedIndex (fst heldReset) = 0"
    by (simp add: heldReset_eq heldStart_fst)
  show ?thesis using n b i by (simp add: heldReset_eq resetToDefaults_ui_dialog)
qed

lemma benchConfirm_eq:
  "benchConfirm =
     ((fst benchStart)\<lparr> dialog :=
         \<lparr> dtype = DReset, title = Some ''Reset to Factory Defaults'',
           dmessage = Some (''This will reset all settings to factory defaults.'' @ [CHR 0x0A] @
                            ''Are you sure you want to continue?'') \<rparr> \<rparr>,
      snd benchStart)"
  by (simp add: benchConfirm_def useInput_def benchStart_fst noDialog_def noKey_def)

section \<open>The claims\<close>

subsection \<open>C1: the error dialog after Reset-to-Defaults\<close>

text \<open>
  For comparison, the sibling operation: when Optimize collects errors, its Error dialog
  stays open, with the messages joined by \<open>'. '\<close> and a final period
  (\<open>optimize_failure_dialog\<close> above).

  Claim C1 says that after Reset-to-Defaults a non-empty error list leaves an Error dialog
  open. The handler does build that dialog, but its last statement sets the dialog to
  \<open>none\<close> on every path, so the dialog is never shown. On the held bench camera the
  backend reports two errors, and after \<open>y\<close> in the confirmation the dialog is closed;
  the only feedback left is the notification that the reset has started.
\<close>

theorem reset_error_dialog_discarded:
  "dtype (dialog (fst heldConfirm)) = DReset
   \<and> errors (fst (resetToDefaults bench (snd heldConfirm))) =
       [''Cannot reset video format: camera is in use by another application'',
        ''Cannot reset frame rate: camera is in use by another application'']
   \<and> dtype (dialog (fst heldReset)) = DNone
   \<and> notification (fst heldReset) =
       \<lparr> message = ''Resetting to factory defaults...'', ntype = NInfo, visible = True \<rparr>"
proof -
  obtain tr where w: "snd heldStart = (heldCamera, tr)"
    using heldStart_camera by (cases "snd heldStart") simp
  have h: "held heldCamera" by (simp add: heldCamera_def)
  have e: "errors (fst (resetToDefaults bench (snd heldConfirm))) =
       [''Cannot reset video format: camera is in use by another application'',
        ''Cannot reset frame rate: camera is in use by another application'']"
    using bench_reset_held [of "(heldCamera, tr)"] h by (simp add: heldConfirm_eq w)
  show ?thesis using e heldReset_facts by (simp add: heldConfirm_eq noDialog_def)
qed

subsection \<open>C2: the selection index\<close>

text \<open>
  Claim C2 says that after every operation the selection index lies within the visible
  settings, being clamped when the visible set shrinks. It fails: the handlers of
  adjustments and composite operations never write the index. On the bench camera, with
  the cursor on the last of fifteen rows, Optimize switches the three automatic modes on,
  twelve rows remain and the index is still 14.
\<close>

theorem selectedIndex_dangles_counterexample:
  "0 \<le> selectedIndex (fst scrolledToEnd)
   \<and> selectedIndex (fst scrolledToEnd) \<le> int (length (visibleSettings (fst scrolledToEnd))) - 1
   \<and> afterOptimize = useInput bench ''o'' noKey scrolledToEnd
   \<and> 0 < length (visibleSettings (fst afterOptimize))
   \<and> \<not> selectedIndex (fst afterOptimize) \<le> int (length (visibleSettings (fst afterOptimize))) - 1"
  using scrolledToEnd_facts afterOptimize_facts by (simp add: afterOptimize_def)

text \<open>
  Claim C2 as amended: the index is never negative; a Down move always leaves it within
  the visible settings, and an Up move does when it was within them; every other input,
  and the passing of time, leaves the index as it is. After an adjustment of the selected
  setting the index is still within the visible settings, provided the refresh changes no
  automatic mode other than the one the selected row toggles. The composite operations
  give no such bound.
\<close>

theorem selectedIndex_after_input:
  assumes "0 \<le> selectedIndex (fst S)"
  shows "0 \<le> selectedIndex (fst (useInput sh input k S))
     \<and> (dtype (dialog (fst S)) = DNone \<and> \<not> upArrow k \<and> downArrow k \<longrightarrow>
          selectedIndex (fst (useInput sh input k S))
            \<le> int (length (visibleSettings (fst (useInput sh input k S)))) - 1)
     \<and> (dtype (dialog (fst S)) = DNone \<and> upArrow k
          \<and> selectedIndex (fst S) \<le> int (length (visibleSettings (fst S))) - 1 \<longrightarrow>
          selectedIndex (fst (useInput sh input k S))
            \<le> int (length (visibleSettings (fst (useInput sh input k S)))) - 1)
     \<and> (dtype (dialog (fst S)) \<noteq> DNone \<or> (\<not> upArrow k \<and> \<not> downArrow k) \<longrightarrow>
          selectedIndex (fst (useInput sh input k S)) = selectedIndex (fst S))
     \<and> selectedIndex (elapse d (fst S)) = selectedIndex (fst S)
     \<and> (at (visibleSettings (fst S)) (selectedIndex (fst S)) = Some s
        \<and> (key s \<noteq> ''autoExposure'' \<longrightarrow>
             autoExposure (currentSettings (fst (adjustCurrentSetting sh delta S))) =
             autoExposure (currentSettings (fst S)))
        \<and> (key s \<noteq> ''autoFocus'' \<longrightarrow>
             autoFocus (currentSettings (fst (adjustCurrentSetting sh delta S))) =
             autoFocus (currentSettings (fst S)))
        \<and> (key s \<noteq> ''autoWhiteBalance'' \<longrightarrow>
             autoWhiteBalance (currentSettings (fst (adjustCurrentSetting sh delta S))) =
             autoWhiteBalance (currentSettings (fst S)))
        \<longrightarrow> selectedIndex (fst (adjustCurrentSetting sh delta S))
              \<le> int (length (visibleSettings (fst (adjustCurrentSetting sh delta S)))) - 1)"
proof -
  note b = visibleSettings_bounds [of "fst S"]
  have c: "0 \<le> int (length (visibleSettings (fst S))) - 1" using b by linarith
  have 1: "0 \<le> selectedIndex (fst (useInput sh input k S))"
    using assms c by (simp add: useInput_index)
  have 2: "dtype (dialog (fst S)) = DNone \<and> \<not> upArrow k \<and> downArrow k \<longrightarrow>
          selectedIndex (fst (useInput sh input k S))
            \<le> int (length (visibleSettings (fst (useInput sh input k S)))) - 1"
    by (simp add: useInput_index useInput_arrow_visible min_def)
  have 3: "dtype (dialog (fst S)) = DNone \<and> upArrow k
          \<and> selectedIndex (fst S) \<le> int (length (visibleSettings (fst S))) - 1 \<longrightarrow>
          selectedIndex (fst (useInput sh input k S))
            \<le> int (length (visibleSettings (fst (useInput sh input k S)))) - 1"
    using c by (simp add: useInput_index useInput_arrow_visible)
  have 4: "dtype (dialog (fst S)) \<noteq> DNone \<or> (\<not> upArrow k \<and> \<not> downArrow k) \<longrightarrow>
          selectedIndex (fst (useInput sh input k S)) = selectedIndex (fst S)"
    by (auto simp: useInput_index)
  have 5: "selectedIndex (elapse d (fst S)) = selectedIndex (fst S)"
    by (simp add: elapse_def fold_hide_index)
  have 6: "at (visibleSettings (fst S)) (selectedIndex (fst S)) = Some s
        \<and> (key s \<noteq> ''autoExposure'' \<longrightarrow>
             autoExposure (currentSettings (fst (adjustCurrentSetting sh delta S))) =
             autoExposure (currentSettings (fst S)))
        \<and> (key s \<noteq> ''autoFocus'' \<longrightarrow>
             autoFocus (currentSettings (fst (adjustCurrentSetting sh delta S))) =
             autoFocus (currentSettings (fst S)))
        \<and> (key s \<noteq> ''autoWhiteBalance'' \<longrightarrow>
             autoWhiteBalance (currentSettings (fst (adjustCurrentSetting sh delta S))) =
             autoWhiteBalance (currentSettings (fst S)))
        \<longrightarrow> selectedIndex (fst (adjustCurrentSetting sh delta S))
              \<le> int (length (visibleSettings (fst (adjustCurrentSetting sh delta S)))) - 1"
    using adjust_keeps_selection [of S s sh delta] by blast
  from 1 2 3 4 5 6 show ?thesis by blast
qed

theorem selectedIndex_after_input_witness:
  "0 \<le> selectedIndex (fst scrolledToEnd)
   \<and> selectedIndex (fst (useInput bench [] downKey scrolledToEnd)) = 14
   \<and> selectedIndex (fst (useInput bench ''o'' noKey scrolledToEnd)) = selectedIndex (fst scrolledToEnd)
   \<and> selectedIndex (fst (adjustCurrentSetting bench (- 1) onExposure))
       \<le> int (length (visibleSettings (fst (adjustCurrentSetting bench (- 1) onExposure)))) - 1"
proof -
  have h: "0 \<le> selectedIndex (fst scrolledToEnd)" using scrolledToEnd_facts by simp
  have d: "selectedIndex (fst (useInput bench [] downKey scrolledToEnd)) = 14"
    using scrolledToEnd_facts by (simp add: useInput_index downKey_def noKey_def)
  from selectedIndex_after_input [OF h, where sh = bench and input = "''o''" and k = noKey]
  have o: "selectedIndex (fst (useInput bench ''o'' noKey scrolledToEnd)) = selectedIndex (fst scrolledToEnd)"
    by (simp add: noKey_def)
  have h': "0 \<le> selectedIndex (fst onExposure)" by (simp add: onExposure_eq)
  from selectedIndex_after_input [OF h', where sh = bench and delta = "- 1"
      and s = "rangeItem ''exposureValue'' 250 3 2047 1"]
    onExposure_selected onExposure_left_settings
  have a: "selectedIndex (fst (adjustCurrentSetting bench (- 1) onExposure))
       \<le> int (length (visibleSettings (fst (adjustCurrentSetting bench (- 1) onExposure)))) - 1"
    by simp
  from h d o a show ?thesis by simp
qed

subsection \<open>C3: superseding a notification\<close>

text \<open>
  Claim C3 says that a second notification cancels the timer of the first and stays
  visible for its own 2000 ms. It fails: \<open>showNotification\<close> only adds a timer. With
  two notifications 500 ms apart both timers are pending, and 1500 ms after the second
  the timer of the first hides it.
\<close>

theorem notify_cancels_timer_counterexample:
  "timers twoNotices = [2000, 2500]
   \<and> clock (elapse 1500 twoNotices) = 2000
   \<and> message (notification (elapse 1500 twoNotices)) = ''second''
   \<and> \<not> visible (notification (elapse 1500 twoNotices))"
  by (simp add: twoNotices_def showNotification_def elapse_def hideNotification_def benchStart_clock)

text \<open>
  Claim C3 as amended: every notification adds its own 2000 ms timer and cancels none.
  When two notifications are fired 500 ms apart with no other timer pending, the second
  is the one shown at the 1000 ms mark; it is visible for the 1500 ms until the first
  timer fires and hidden from then on, so also 2500 ms after it was fired, and its text
  is kept.
\<close>

theorem notify_keeps_earlier_timer:
  assumes "timers st = []"
  shows "timers (showNotification m t st') = timers st' @ [clock st' + 2000]
     \<and> timers (showNotification m2 t2 (elapse 500 (showNotification m1 t1 st))) =
         [clock st + 2000, clock st + 2500]
     \<and> notification (elapse 500 (showNotification m2 t2 (elapse 500 (showNotification m1 t1 st)))) =
         \<lparr> message = m2, ntype = t2, visible = True \<rparr>
     \<and> visible (notification
          (elapse d (showNotification m2 t2 (elapse 500 (showNotification m1 t1 st))))) = (d < 1500)
     \<and> message (notification
          (elapse d (showNotification m2 t2 (elapse 500 (showNotification m1 t1 st))))) = m2"
  using assms by (simp add: showNotification_def elapse_def hideNotification_def)

theorem notify_keeps_earlier_timer_witness:
  "timers (fst benchStart) = []
   \<and> timers twoNotices = [2000, 2500]
   \<and> visible (notification (elapse 1499 twoNotices))
   \<and> \<not> visible (notification (elapse 2500 twoNotices))"
  using notify_keeps_earlier_timer [of "fst benchStart" "''x''" NInfo "fst benchStart"
      "''second''" NSuccess "''first''" NInfo 1499]
    notify_keeps_earlier_timer [of "fst benchStart" "''x''" NInfo "fst benchStart"
      "''second''" NSuccess "''first''" NInfo 2500]
    benchStart_clock
  by (simp add: twoNotices_def)

subsection \<open>C4: adjusting a select setting\<close>

text \<open>
  Claim C4 says that a current value missing from the options counts as index 0, so that
  one step right gives the second option. It fails: \<open>indexOf\<close> gives \<open>-1\<close>, and one step
  right gives the first option. The power line filter shows \<open>Unknown\<close> for a frequency
  the device reports outside 0..2, which is none of its options.
\<close>

theorem select_absent_value_counterexample:
  "getPowerLineDisplay 3 = ''Unknown''
   \<and> indexOf [''Disabled'', ''50Hz'', ''60Hz''] (getPowerLineDisplay 3) = - 1
   \<and> at [''Disabled'', ''50Hz'', ''60Hz'']
        (selectNewIndex [''Disabled'', ''50Hz'', ''60Hz''] (Str (getPowerLineDisplay 3)) 1)
      = Some ''Disabled''
   \<and> at [''Disabled'', ''50Hz'', ''60Hz'']
        (selectNewIndex [''Disabled'', ''50Hz'', ''60Hz''] (Str (getPowerLineDisplay 3)) 1)
      \<noteq> at [''Disabled'', ''50Hz'', ''60Hz''] 1"
  by (simp add: getPowerLineDisplay_def selectNewIndex_def at_def)

text \<open>
  Claim C4 as amended: for every select entry of the catalog the new index is
  \<open>indexOf(value) + delta\<close> clamped to the options, and the new value is the option at
  that index, a member of the options; a value that is among the options is at its
  \<open>indexOf\<close>, and a value that is not has index \<open>-1\<close>, so that one step right gives the
  first option. When the entry is the selected one and not locked by a busy device, the
  adjustment applies that option.
\<close>

theorem select_adjust_clamps:
  assumes "s \<in> set (settings (currentSettings st) (currentFormat st))" and "itype s = Select"
  shows "\<exists>opts v.
           options s = Some opts \<and> ivalue s = Str v \<and>
           selectNewIndex opts (Str v) delta =
             max 0 (min (int (length opts) - 1) (indexOf opts v + delta)) \<and>
           0 \<le> selectNewIndex opts (Str v) delta \<and>
           selectNewIndex opts (Str v) delta < int (length opts) \<and>
           at opts (selectNewIndex opts (Str v) delta) =
             Some (opts ! nat (selectNewIndex opts (Str v) delta)) \<and>
           opts ! nat (selectNewIndex opts (Str v) delta) \<in> set opts \<and>
           (v \<in> set opts \<longrightarrow> 0 \<le> indexOf opts v \<and> opts ! nat (indexOf opts v) = v) \<and>
           (v \<notin> set opts \<longrightarrow> indexOf opts v = - 1 \<and>
              (delta = 1 \<longrightarrow> selectNewIndex opts (Str v) delta = 0)) \<and>
           (at (visibleSettings st) (selectedIndex st) = Some s \<and>
            \<not> (deviceBusy st \<and> key s \<in> set [''resolution'', ''format'', ''framerate'']) \<longrightarrow>
              adjustCurrentSetting sh delta (st, W) =
                applySelectSetting sh (key s)
                  (opts ! nat (selectNewIndex opts (Str v) delta)) (st, W))"
proof -
  from settings_select [OF assms]
  obtain v opts where f: "ivalue s = Str v" "options s = Some opts" "opts \<noteq> []" by blast
  let ?i = "selectNewIndex opts (Str v) delta"
  have r: "0 \<le> ?i \<and> ?i < int (length opts)" using f(3) by (rule selectNewIndex_range)
  then have a: "at opts ?i = Some (opts ! nat ?i)" by (simp add: at_def)
  from r have "nat ?i < length opts" by linarith
  then have m: "opts ! nat ?i \<in> set opts" by (rule nth_mem)
  have e: "?i = max 0 (min (int (length opts) - 1) (indexOf opts v + delta))"
    by (simp add: selectNewIndex_def)
  have adj: "at (visibleSettings st) (selectedIndex st) = Some s \<and>
      \<not> (deviceBusy st \<and> key s \<in> set [''resolution'', ''format'', ''framerate'']) \<longrightarrow>
      adjustCurrentSetting sh delta (st, W) =
        applySelectSetting sh (key s) (opts ! nat ?i) (st, W)"
  proof
    assume h: "at (visibleSettings st) (selectedIndex st) = Some s \<and>
      \<not> (deviceBusy st \<and> key s \<in> set [''resolution'', ''format'', ''framerate''])"
    then have "at (visibleSettings st) (selectedIndex st) = Some s" by simp
    then have "s \<in> set (visibleSettings st)" by (rule at_Some_mem)
    then have shown: "shouldShowSetting (currentSettings st) (key s)"
      by (simp add: visible_mem)
    show "adjustCurrentSetting sh delta (st, W) =
        applySelectSetting sh (key s) (opts ! nat ?i) (st, W)"
      using h assms(2) f shown a by (auto simp: adjustCurrentSetting_def disabled_iff_hidden)
  qed
  have p: "v \<in> set opts \<longrightarrow> 0 \<le> indexOf opts v \<and> opts ! nat (indexOf opts v) = v"
    using indexOf_mem [of v opts] by blast
  have q: "v \<notin> set opts \<longrightarrow> indexOf opts v = - 1 \<and> (delta = 1 \<longrightarrow> ?i = 0)"
  proof (intro impI conjI)
    assume n: "v \<notin> set opts"
    then show i: "indexOf opts v = - 1" by (rule indexOf_absent)
    have l: "1 \<le> int (length opts)" using f(3) by (cases opts) simp_all
    assume "delta = 1"
    with i l show "?i = 0" by (simp add: selectNewIndex_def)
  qed
  show ?thesis using f(1,2) e r a m adj p q by blast
qed

theorem select_adjust_clamps_witness:
  "adjustCurrentSetting bench 1 scrolledToEnd =
     applySelectSetting bench ''powerLineFrequency'' ''60Hz'' scrolledToEnd"
proof -
  have t: "itype (selectItem ''powerLineFrequency'' ''50Hz'' [''Disabled'', ''50Hz'', ''60Hz'']) = Select"
    by (simp add: selectItem_def)
  have m: "selectItem ''powerLineFrequency'' ''50Hz'' [''Disabled'', ''50Hz'', ''60Hz'']
      \<in> set (settings (currentSettings (fst scrolledToEnd)) (currentFormat (fst scrolledToEnd)))"
    using at_Some_mem [OF scrolledToEnd_selected] by (simp add: visible_mem)
  have b: "\<not> (deviceBusy (fst scrolledToEnd) \<and>
      key (selectItem ''powerLineFrequency'' ''50Hz'' [''Disabled'', ''50Hz'', ''60Hz''])
        \<in> set [''resolution'', ''format'', ''framerate''])"
    by (simp add: selectItem_def)
  from select_adjust_clamps [OF m t, where sh = bench and delta = 1
      and W = "snd scrolledToEnd"] scrolledToEnd_selected b
  show ?thesis by (auto simp: selectItem_def selectNewIndex_def)
qed

subsection \<open>C5: the busy lock on format settings\<close>

text \<open>
  Claim C5: when the device is busy and the selected setting is the resolution, the pixel
  format or the frame rate, an adjustment executes no command, shows the error
  notification \<open>Cannot change: camera is in use\<close> and changes nothing else; for any
  other selected key the adjustment does the same whatever the busy flag is (the same
  commands, and the same state but for the flag itself).
\<close>

theorem busy_locks_format_settings:
  assumes "at (visibleSettings st) (selectedIndex st) = Some s"
  shows "(deviceBusy st \<and> key s \<in> set [''resolution'', ''format'', ''framerate'']
            \<longrightarrow> adjustCurrentSetting sh delta (st, W) =
                  (st\<lparr> notification :=
                        \<lparr> message = ''Cannot change: camera is in use'', ntype = NError,
                          visible = True \<rparr>,
                      timers := timers st @ [clock st + 2000] \<rparr>, W))
       \<and> (key s \<notin> set [''resolution'', ''format'', ''framerate'']
            \<longrightarrow> snd (adjustCurrentSetting sh delta (st\<lparr> deviceBusy := b \<rparr>, W)) =
                  snd (adjustCurrentSetting sh delta (st, W))
                \<and> (fst (adjustCurrentSetting sh delta (st\<lparr> deviceBusy := b \<rparr>, W)))
                     \<lparr> deviceBusy := c \<rparr> =
                  (fst (adjustCurrentSetting sh delta (st, W)))\<lparr> deviceBusy := c \<rparr>)"
proof (intro conjI impI)
  assume "deviceBusy st \<and> key s \<in> set [''resolution'', ''format'', ''framerate'']"
  with assms show "adjustCurrentSetting sh delta (st, W) =
      (st\<lparr> notification :=
            \<lparr> message = ''Cannot change: camera is in use'', ntype = NError, visible = True \<rparr>,
          timers := timers st @ [clock st + 2000] \<rparr>, W)"
    by (simp add: adjustCurrentSetting_def showNotification_def)
next
  assume k: "key s \<notin> set [''resolution'', ''format'', ''framerate'']"
  show "snd (adjustCurrentSetting sh delta (st\<lparr> deviceBusy := b \<rparr>, W)) =
      snd (adjustCurrentSetting sh delta (st, W))"
    using adjust_busy_irrelevant [OF assms k] by blast
  show "(fst (adjustCurrentSetting sh delta (st\<lparr> deviceBusy := b \<rparr>, W)))\<lparr> deviceBusy := c \<rparr> =
      (fst (adjustCurrentSetting sh delta (st, W)))\<lparr> deviceBusy := c \<rparr>"
    using adjust_busy_irrelevant [OF assms k] by blast
qed

theorem busy_locks_format_settings_witness:
  "deviceBusy (fst heldReset)
   \<and> adjustCurrentSetting bench 1 heldReset =
       ((fst heldReset)\<lparr> notification :=
            \<lparr> message = ''Cannot change: camera is in use'', ntype = NError, visible = True \<rparr>,
          timers := timers (fst heldReset) @ [clock (fst heldReset) + 2000] \<rparr>, snd heldReset)
   \<and> snd (adjustCurrentSetting bench 1 ((fst onExposure)\<lparr> deviceBusy := True \<rparr>, snd onExposure)) =
       snd (adjustCurrentSetting bench 1 onExposure)"
proof -
  have a: "at (visibleSettings (fst heldReset)) (selectedIndex (fst heldReset)) =
     Some (selectItem ''resolution''
             (showInt (width (currentFormat (fst heldReset))) @ ''x'' @
              showInt (height (currentFormat (fst heldReset))))
             [''640x480'', ''800x600'', ''1024x576'', ''1280x720'', ''1920x1080''])"
    using heldReset_facts by (simp add: visible_first)
  have b: "deviceBusy (fst heldReset)" using heldReset_facts by simp
  from busy_locks_format_settings [OF a, where sh = bench and delta = 1 and W = "snd heldReset"] b
  have 1: "adjustCurrentSetting bench 1 heldReset =
       ((fst heldReset)\<lparr> notification :=
            \<lparr> message = ''Cannot change: camera is in use'', ntype = NError, visible = True \<rparr>,
          timers := timers (fst heldReset) @ [clock (fst heldReset) + 2000] \<rparr>, snd heldReset)"
    by (simp add: selectItem_def)
  from busy_locks_format_settings [OF onExposure_selected, where sh = bench and delta = 1
      and W = "snd onExposure" and b = True]
  have 2: "snd (adjustCurrentSetting bench 1 ((fst onExposure)\<lparr> deviceBusy := True \<rparr>, snd onExposure)) =
       snd (adjustCurrentSetting bench 1 onExposure)"
    by (simp add: rangeItem_def)
  from b 1 2 show ?thesis by simp
qed

subsection \<open>C6: the dependency rules\<close>

text \<open>
  Claim C6: while an automatic mode is on, its manual value is not among the visible
  settings, it counts as disabled, and no adjustment writes its control (a write to it in
  the command list was there before); a key outside the three rules is always shown and
  never disabled, so a catalog entry with such a key is visible.
\<close>

theorem dependency_rules:
  "(autoExposure (currentSettings st) \<longrightarrow>
      ''exposureValue'' \<notin> key ` set (visibleSettings st)
      \<and> isManualControlDisabled (currentSettings st) ''exposureValue''
      \<and> (SetCtrl ''exposure_time_absolute'' v \<in> set (snd (snd (adjustCurrentSetting sh delta (st, W))))
           \<longrightarrow> SetCtrl ''exposure_time_absolute'' v \<in> set (snd W)))
   \<and> (autoFocus (currentSettings st) \<longrightarrow>
      ''focusValue'' \<notin> key ` set (visibleSettings st)
      \<and> isManualControlDisabled (currentSettings st) ''focusValue''
      \<and> (SetCtrl ''focus_absolute'' v \<in> set (snd (snd (adjustCurrentSetting sh delta (st, W))))
           \<longrightarrow> SetCtrl ''focus_absolute'' v \<in> set (snd W)))
   \<and> (autoWhiteBalance (currentSettings st) \<longrightarrow>
      ''whiteBalanceValue'' \<notin> key ` set (visibleSettings st)
      \<and> isManualControlDisabled (currentSettings st) ''whiteBalanceValue''
      \<and> (SetCtrl ''white_balance_temperature'' v \<in> set (snd (snd (adjustCurrentSetting sh delta (st, W))))
           \<longrightarrow> SetCtrl ''white_balance_temperature'' v \<in> set (snd W)))
   \<and> (k \<notin> set [''exposureValue'', ''focusValue'', ''whiteBalanceValue''] \<longrightarrow>
        shouldShowSetting (currentSettings st) k
        \<and> \<not> isManualControlDisabled (currentSettings st) k
        \<and> (s \<in> set (settings (currentSettings st) (currentFormat st)) \<and> key s = k
             \<longrightarrow> s \<in> set (visibleSettings st)))"
proof (intro conjI impI)
  assume a: "autoExposure (currentSettings st)"
  show "''exposureValue'' \<notin> key ` set (visibleSettings st)"
  proof
    assume "''exposureValue'' \<in> key ` set (visibleSettings st)"
    then obtain x where "x \<in> set (visibleSettings st)" "key x = ''exposureValue''" by auto
    with a hidden_keys [of x st] show False by simp
  qed
  show "isManualControlDisabled (currentSettings st) ''exposureValue''"
    using a by (simp add: isManualControlDisabled_def)
  assume t: "SetCtrl ''exposure_time_absolute'' v \<in> set (snd (snd (adjustCurrentSetting sh delta (st, W))))"
  show "SetCtrl ''exposure_time_absolute'' v \<in> set (snd W)"
  proof (rule ccontr)
    assume n: "SetCtrl ''exposure_time_absolute'' v \<notin> set (snd W)"
    from adjust_writes [of "''exposure_time_absolute''" v sh delta "(st, W)"] t n
    obtain s' where "s' \<in> set (visibleSettings st)" "key s' = ''exposureValue''" by auto
    with a hidden_keys [of s' st] show False by simp
  qed
next
  assume a: "autoFocus (currentSettings st)"
  show "''focusValue'' \<notin> key ` set (visibleSettings st)"
  proof
    assume "''focusValue'' \<in> key ` set (visibleSettings st)"
    then obtain x where "x \<in> set (visibleSettings st)" "key x = ''focusValue''" by auto
    with a hidden_keys [of x st] show False by simp
  qed
  show "isManualControlDisabled (currentSettings st) ''focusValue''"
    using a by (simp add: isManualControlDisabled_def)
  assume t: "SetCtrl ''focus_absolute'' v \<in> set (snd (snd (adjustCurrentSetting sh delta (st, W))))"
  show "SetCtrl ''focus_absolute'' v \<in> set (snd W)"
  proof (rule ccontr)
    assume n: "SetCtrl ''focus_absolute'' v \<notin> set (snd W)"
    from adjust_writes [of "''focus_absolute''" v sh delta "(st, W)"] t n
    obtain s' where "s' \<in> set (visibleSettings st)" "key s' = ''focusValue''" by auto
    with a hidden_keys [of s' st] show False by simp
  qed
next
  assume a: "autoWhiteBalance (currentSettings st)"
  show "''whiteBalanceValue'' \<notin> key ` set (visibleSettings st)"
  proof
    assume "''whiteBalanceValue'' \<in> key ` set (visibleSettings st)"
    then obtain x where "x \<in> set (visibleSettings st)" "key x = ''whiteBalanceValue''" by auto
    with a hidden_keys [of x st] show False by simp
  qed
  show "isManualControlDisabled (currentSettings st) ''whiteBalanceValue''"
    using a by (simp add: isManualControlDisabled_def)
  assume t: "SetCtrl ''white_balance_temperature'' v \<in> set (snd (snd (adjustCurrentSetting sh delta (st, W))))"
  show "SetCtrl ''white_balance_temperature'' v \<in> set (snd W)"
  proof (rule ccontr)
    assume n: "SetCtrl ''white_balance_temperature'' v \<notin> set (snd W)"
    from adjust_writes [of "''white_balance_temperature''" v sh delta "(st, W)"] t n
    obtain s' where "s' \<in> set (visibleSettings st)" "key s' = ''whiteBalanceValue''" by auto
    with a hidden_keys [of s' st] show False by simp
  qed
next
  assume k: "k \<notin> set [''exposureValue'', ''focusValue'', ''whiteBalanceValue'']"
  show "shouldShowSetting (currentSettings st) k"
    using k by (simp add: shouldShowSetting_def)
  show "\<not> isManualControlDisabled (currentSettings st) k"
    using k by (simp add: isManualControlDisabled_def)
  assume "s \<in> set (settings (currentSettings st) (currentFormat st)) \<and> key s = k"
  then show "s \<in> set (visibleSettings st)"
    using k by (simp add: visible_mem shouldShowSetting_def)
qed

theorem dependency_rules_witness:
  "autoExposure (currentSettings (fst afterOptimize))
   \<and> ''exposureValue'' \<notin> key ` set (visibleSettings (fst afterOptimize))
   \<and> isManualControlDisabled (currentSettings (fst afterOptimize)) ''exposureValue''
   \<and> SetCtrl ''exposure_time_absolute'' 251 \<notin> set (snd (snd (adjustCurrentSetting bench 1 (fst afterOptimize, (manualCamera, [])))))
   \<and> shouldShowSetting (currentSettings (fst afterOptimize)) ''brightness''"
  using dependency_rules [of "fst afterOptimize" 251 bench 1 "(manualCamera, [])" "''brightness''"]
    afterOptimize_autos
  by auto

subsection \<open>C7: adjusting a range setting\<close>

text \<open>
  Claim C7: for every range entry of the catalog the new value is
  \<open>current + delta * step\<close> clamped to \<open>[min, max]\<close>, for every delta; it lies between the
  bounds, and at a bound a further step outwards returns the bound. When the entry is
  the selected one, the adjustment applies that value.
\<close>

theorem range_adjust_clamps:
  assumes "s \<in> set (settings (currentSettings st) (currentFormat st))" and "itype s = Range"
  shows "\<exists>v lo hi stp.
           ivalue s = Num v \<and> imin s = Some lo \<and> imax s = Some hi \<and> istep s = Some stp \<and>
           rangeNewValue s x delta = max lo (min hi (x + delta * stp)) \<and>
           lo \<le> rangeNewValue s x delta \<and> rangeNewValue s x delta \<le> hi \<and>
           (0 \<le> delta \<longrightarrow> rangeNewValue s hi delta = hi) \<and>
           (delta \<le> 0 \<longrightarrow> rangeNewValue s lo delta = lo) \<and>
           (at (visibleSettings st) (selectedIndex st) = Some s \<longrightarrow>
              adjustCurrentSetting sh delta (st, W) =
                applySetting sh (key s) (SNum (rangeNewValue s v delta)) (st, W))"
proof -
  from settings_range [OF assms]
  obtain v lo hi stp where f: "ivalue s = Num v" "imin s = Some lo" "imax s = Some hi"
      "istep s = Some stp" "0 \<le> lo" "lo < hi" "0 < stp"
      "key s \<notin> set [''resolution'', ''format'', ''framerate'']"
    by blast
  have eq: "\<And>y d. rangeNewValue s y d = max lo (min hi (y + d * stp))"
    using f by (simp add: rangeNewValue_eq)
  have adj: "at (visibleSettings st) (selectedIndex st) = Some s \<longrightarrow>
      adjustCurrentSetting sh delta (st, W) =
        applySetting sh (key s) (SNum (rangeNewValue s v delta)) (st, W)"
  proof
    assume a: "at (visibleSettings st) (selectedIndex st) = Some s"
    then have "s \<in> set (visibleSettings st)" by (rule at_Some_mem)
    then have shown: "shouldShowSetting (currentSettings st) (key s)"
      by (simp add: visible_mem)
    show "adjustCurrentSetting sh delta (st, W) =
        applySetting sh (key s) (SNum (rangeNewValue s v delta)) (st, W)"
      using a assms(2) f(1,8) shown by (simp add: adjustCurrentSetting_def disabled_iff_hidden)
  qed
  have up: "0 \<le> delta \<longrightarrow> rangeNewValue s hi delta = hi"
    using f(6,7) by (simp add: eq min_def max_def)
  have down: "delta \<le> 0 \<longrightarrow> rangeNewValue s lo delta = lo"
  proof
    assume "delta \<le> 0"
    then have "delta * stp \<le> 0" using f(7) by (simp add: mult_le_0_iff)
    then show "rangeNewValue s lo delta = lo" using f(6) by (simp add: eq min_def max_def)
  qed
  have b: "lo \<le> rangeNewValue s x delta \<and> rangeNewValue s x delta \<le> hi"
    using f(6) by (simp add: eq)
  show ?thesis using f(1-4) eq [of x delta] adj up down b by blast
qed

theorem range_adjust_clamps_witness:
  "adjustCurrentSetting bench (- 1) onExposure =
     applySetting bench ''exposureValue'' (SNum 249) onExposure
   \<and> rangeNewValue (rangeItem ''exposureValue'' 250 3 2047 1) 3 (- 1) = 3"
proof -
  have t: "itype (rangeItem ''exposureValue'' 250 3 2047 1) = Range"
    by (simp add: rangeItem_def)
  have m: "rangeItem ''exposureValue'' 250 3 2047 1
      \<in> set (settings (currentSettings (fst onExposure)) (currentFormat (fst onExposure)))"
    using at_Some_mem [OF onExposure_selected] by (simp add: visible_mem)
  from range_adjust_clamps [OF m t, where sh = bench and delta = "- 1" and x = 3
      and W = "snd onExposure"] onExposure_selected
  show ?thesis
    by (auto simp: rangeItem_def rangeNewValue_def optOrElse_def orElse_def)
qed

subsection \<open>C8: the composite operations\<close>



subsection \<open>C9: the confirmation dialog\<close>

text \<open>
  Claim C9: in the confirmation dialog \<open>y\<close> or \<open>Y\<close> closes the dialog and then runs
  the reset: the twelve reset commands are executed, followed only by the reads of the
  refresh, the settings shown are those read back after the reset, and when both format
  steps return no dialog is open and the success notification is shown. (The dialog
  after a reset that collected errors is the subject of C1 and is not stated here.)
  \<open>n\<close>, \<open>N\<close> or Escape closes the dialog and changes nothing else, with no command
  executed; any other input changes nothing. In any other open dialog an input either
  closes the dialog (Enter, Escape, \<open>q\<close>) or changes nothing.
\<close>

theorem confirm_dialog_keys:
  "(dtype (dialog (fst S)) = DReset \<longrightarrow>
      (input = ''y'' \<or> input = ''Y'' \<longrightarrow>
         useInput sh input k S = resetToDefaults_ui sh ((fst S)\<lparr> dialog := noDialog \<rparr>, snd S)
         \<and> (\<exists>reads.
               snd (snd (useInput sh input k S)) =
                 snd (snd S) @
                 [SetFmtVideo (Some 640) (Some 480) ''YUYV'', SetParm (Some 30),
                  SetCtrl ''brightness'' 128, SetCtrl ''contrast'' 128,
                  SetCtrl ''saturation'' 128, SetCtrl ''sharpness'' 128, SetCtrl ''gain'' 0,
                  SetCtrl ''auto_exposure'' 1, SetCtrl ''focus_automatic_continuous'' 0,
                  SetCtrl ''white_balance_automatic'' 1, SetCtrl ''power_line_frequency'' 1,
                  SetCtrl ''backlight_compensation'' 0] @ reads
               \<and> set reads \<subseteq> insert GetFmtVideo (insert GetParm (range GetCtrl)))
         \<and> snd (snd (useInput sh input k S)) \<noteq> snd (snd S)
         \<and> currentSettings (fst (useInput sh input k S)) =
             fst (getCurrentSettings sh (snd (resetToDefaults sh (snd S))))
         \<and> ((\<exists>out. fst (sh (fst (snd S)) (SetFmtVideo (Some 640) (Some 480) ''YUYV''))
                      = Returned out)
             \<and> (\<exists>out. fst (sh (snd (sh (fst (snd S))
                                       (SetFmtVideo (Some 640) (Some 480) ''YUYV'')))
                               (SetParm (Some 30))) = Returned out)
             \<longrightarrow> dialog (fst (useInput sh input k S)) = noDialog
                 \<and> notification (fst (useInput sh input k S)) =
                     \<lparr> message = ''Factory defaults restored successfully!'',
                       ntype = NSuccess, visible = True \<rparr>))
    \<and> (input \<noteq> ''y'' \<and> input \<noteq> ''Y'' \<and> (input = ''n'' \<or> input = ''N'' \<or> escape k) \<longrightarrow>
         useInput sh input k S = ((fst S)\<lparr> dialog := noDialog \<rparr>, snd S))
    \<and> (input \<noteq> ''y'' \<and> input \<noteq> ''Y'' \<and> input \<noteq> ''n'' \<and> input \<noteq> ''N'' \<and> \<not> escape k \<longrightarrow>
         useInput sh input k S = S))
   \<and> (dtype (dialog (fst S)) \<noteq> DNone \<and> dtype (dialog (fst S)) \<noteq> DReset \<longrightarrow>
        useInput sh input k S =
          (if return k \<or> escape k \<or> input = ''q''
           then ((fst S)\<lparr> dialog := noDialog \<rparr>, snd S) else S))"
proof -
  let ?S' = "((fst S)\<lparr> dialog := noDialog \<rparr>, snd S)"
  have cmds: "\<exists>reads.
        snd (snd (resetToDefaults_ui sh ?S')) =
          snd (snd S) @
          [SetFmtVideo (Some 640) (Some 480) ''YUYV'', SetParm (Some 30),
           SetCtrl ''brightness'' 128, SetCtrl ''contrast'' 128,
           SetCtrl ''saturation'' 128, SetCtrl ''sharpness'' 128, SetCtrl ''gain'' 0,
           SetCtrl ''auto_exposure'' 1, SetCtrl ''focus_automatic_continuous'' 0,
           SetCtrl ''white_balance_automatic'' 1, SetCtrl ''power_line_frequency'' 1,
           SetCtrl ''backlight_compensation'' 0] @ reads
        \<and> set reads \<subseteq> insert GetFmtVideo (insert GetParm (range GetCtrl))"
    using resetToDefaults_ui_commands [of sh ?S'] by simp
  then have grows: "snd (snd (resetToDefaults_ui sh ?S')) \<noteq> snd (snd S)" by auto
  have sets: "currentSettings (fst (resetToDefaults_ui sh ?S')) =
      fst (getCurrentSettings sh (snd (resetToDefaults sh (snd S))))"
    using resetToDefaults_ui_settings [of sh ?S'] by simp
  have ok: "(\<exists>out. fst (sh (fst (snd S)) (SetFmtVideo (Some 640) (Some 480) ''YUYV''))
                      = Returned out)
             \<and> (\<exists>out. fst (sh (snd (sh (fst (snd S))
                                       (SetFmtVideo (Some 640) (Some 480) ''YUYV'')))
                               (SetParm (Some 30))) = Returned out)
             \<longrightarrow> dialog (fst (resetToDefaults_ui sh ?S')) = noDialog
                 \<and> notification (fst (resetToDefaults_ui sh ?S')) =
                     \<lparr> message = ''Factory defaults restored successfully!'',
                       ntype = NSuccess, visible = True \<rparr>"
    using resetToDefaults_ui_success [of sh ?S'] resetToDefaults_success [of sh "snd S"]
      resetToDefaults_ui_dialog [of sh ?S']
    by simp
  have y: "dtype (dialog (fst S)) = DReset \<Longrightarrow> input = ''y'' \<or> input = ''Y'' \<Longrightarrow>
      useInput sh input k S = resetToDefaults_ui sh ?S'"
    by (simp add: useInput_def)
  have rest: "(dtype (dialog (fst S)) = DReset \<longrightarrow>
       (input \<noteq> ''y'' \<and> input \<noteq> ''Y'' \<and> (input = ''n'' \<or> input = ''N'' \<or> escape k) \<longrightarrow>
         useInput sh input k S = ?S')
    \<and> (input \<noteq> ''y'' \<and> input \<noteq> ''Y'' \<and> input \<noteq> ''n'' \<and> input \<noteq> ''N'' \<and> \<not> escape k \<longrightarrow>
         useInput sh input k S = S))
   \<and> (dtype (dialog (fst S)) \<noteq> DNone \<and> dtype (dialog (fst S)) \<noteq> DReset \<longrightarrow>
        useInput sh input k S =
          (if return k \<or> escape k \<or> input = ''q'' then ?S' else S))"
    by (simp add: useInput_def)
  show ?thesis
  proof (cases "dtype (dialog (fst S)) = DReset \<and> (input = ''y'' \<or> input = ''Y'')")
    case True
    then have e: "useInput sh input k S = resetToDefaults_ui sh ?S'" using y by blast
    note facts = cmds grows sets ok
    show ?thesis
      using True rest facts [folded e] e by blast
  next
    case False
    then show ?thesis using rest by blast
  qed
qed

theorem confirm_dialog_keys_witness:
  "dtype (dialog (fst heldConfirm)) = DReset
   \<and> useInput bench ''n'' noKey heldConfirm = heldStart
   \<and> useInput bench ''x'' noKey heldConfirm = heldConfirm
   \<and> take 12 (drop (length (snd (snd heldConfirm)))
                (snd (snd (useInput bench ''y'' noKey heldConfirm)))) =
       [SetFmtVideo (Some 640) (Some 480) ''YUYV'', SetParm (Some 30),
        SetCtrl ''brightness'' 128, SetCtrl ''contrast'' 128,
        SetCtrl ''saturation'' 128, SetCtrl ''sharpness'' 128, SetCtrl ''gain'' 0,
        SetCtrl ''auto_exposure'' 1, SetCtrl ''focus_automatic_continuous'' 0,
        SetCtrl ''white_balance_automatic'' 1, SetCtrl ''power_line_frequency'' 1,
        SetCtrl ''backlight_compensation'' 0]
   \<and> dtype (dialog (fst benchConfirm)) = DReset
   \<and> dialog (fst (useInput bench ''y'' noKey benchConfirm)) = noDialog
   \<and> notification (fst (useInput bench ''y'' noKey benchConfirm)) =
       \<lparr> message = ''Factory defaults restored successfully!'', ntype = NSuccess,
         visible = True \<rparr>"
proof -
  have d: "dtype (dialog (fst heldConfirm)) = DReset" by (simp add: heldConfirm_eq)
  have s: "((fst heldConfirm)\<lparr> dialog := noDialog \<rparr>, snd heldConfirm) = heldStart"
    by (simp add: heldConfirm_eq heldStart_fst prod_eq_iff)
  from confirm_dialog_keys [where S = heldConfirm and input = "''n''" and sh = bench and k = noKey] d s
  have 1: "useInput bench ''n'' noKey heldConfirm = heldStart" by simp
  from confirm_dialog_keys [where S = heldConfirm and input = "''x''" and sh = bench and k = noKey] d
  have 2: "useInput bench ''x'' noKey heldConfirm = heldConfirm" by (simp add: noKey_def)
  from confirm_dialog_keys [where S = heldConfirm and input = "''y''" and sh = bench and k = noKey] d
  obtain reads where "snd (snd (useInput bench ''y'' noKey heldConfirm)) =
      snd (snd heldConfirm) @
       [SetFmtVideo (Some 640) (Some 480) ''YUYV'', SetParm (Some 30),
        SetCtrl ''brightness'' 128, SetCtrl ''contrast'' 128,
        SetCtrl ''saturation'' 128, SetCtrl ''sharpness'' 128, SetCtrl ''gain'' 0,
        SetCtrl ''auto_exposure'' 1, SetCtrl ''focus_automatic_continuous'' 0,
        SetCtrl ''white_balance_automatic'' 1, SetCtrl ''power_line_frequency'' 1,
        SetCtrl ''backlight_compensation'' 0] @ reads"
    by auto
  then have 3: "take 12 (drop (length (snd (snd heldConfirm)))
                (snd (snd (useInput bench ''y'' noKey heldConfirm)))) =
       [SetFmtVideo (Some 640) (Some 480) ''YUYV'', SetParm (Some 30),
        SetCtrl ''brightness'' 128, SetCtrl ''contrast'' 128,
        SetCtrl ''saturation'' 128, SetCtrl ''sharpness'' 128, SetCtrl ''gain'' 0,
        SetCtrl ''auto_exposure'' 1, SetCtrl ''focus_automatic_continuous'' 0,
        SetCtrl ''white_balance_automatic'' 1, SetCtrl ''power_line_frequency'' 1,
        SetCtrl ''backlight_compensation'' 0]"
    by simp
  have d': "dtype (dialog (fst benchConfirm)) = DReset" by (simp add: benchConfirm_eq)
  have c: "fst (snd benchConfirm) = manualCamera"
    by (simp add: benchConfirm_eq benchStart_camera)
  have m: "\<not> held manualCamera" by (simp add: manualCamera_def)
  note f = bench_free_format [OF m, of 640 480 "''YUYV''" 30]
  have g: "fst (bench (snd (bench manualCamera (SetFmtVideo (Some 640) (Some 480) ''YUYV'')))
                 (SetParm (Some 30))) = Returned silent"
    using f bench_free_format [of "snd (bench manualCamera (SetFmtVideo (Some 640) (Some 480) ''YUYV''))"
        640 480 "''YUYV''" 30]
    by blast
  have ok: "(\<exists>out. fst (bench (fst (snd benchConfirm))
                         (SetFmtVideo (Some 640) (Some 480) ''YUYV'')) = Returned out)
      \<and> (\<exists>out. fst (bench (snd (bench (fst (snd benchConfirm))
                                       (SetFmtVideo (Some 640) (Some 480) ''YUYV'')))
                            (SetParm (Some 30))) = Returned out)"
    using f g by (simp add: c)
  from confirm_dialog_keys [where S = benchConfirm and input = "''y''" and sh = bench and k = noKey]
    d' ok
  have 4: "dialog (fst (useInput bench ''y'' noKey benchConfirm)) = noDialog
   \<and> notification (fst (useInput bench ''y'' noKey benchConfirm)) =
       \<lparr> message = ''Factory defaults restored successfully!'', ntype = NSuccess,
         visible = True \<rparr>"
    by blast
  from d 1 2 3 d' 4 show ?thesis by simp
qed

subsection \<open>C10: adjusting with the cursor outside the visible settings\<close>

text \<open>
  Claim C10: when the selection index is outside the visible settings, an adjustment with
  any delta leaves the state and the world as they are: no command, no notification.
\<close>

theorem adjust_out_of_range_noop:
  "selectedIndex (fst S) < 0 \<or> int (length (visibleSettings (fst S))) \<le> selectedIndex (fst S)
   \<Longrightarrow> adjustCurrentSetting sh delta S = S"
proof -
  assume "selectedIndex (fst S) < 0 \<or> int (length (visibleSettings (fst S))) \<le> selectedIndex (fst S)"
  then have "at (visibleSettings (fst S)) (selectedIndex (fst S)) = None"
    by (simp add: at_None_iff)
  then show ?thesis by (simp add: adjustCurrentSetting_def)
qed

theorem adjust_out_of_range_noop_witness:
  "int (length (visibleSettings (fst afterOptimize))) \<le> selectedIndex (fst afterOptimize)
   \<and> adjustCurrentSetting bench 1 afterOptimize = afterOptimize"
proof -
  have h: "int (length (visibleSettings (fst afterOptimize))) \<le> selectedIndex (fst afterOptimize)"
    using afterOptimize_facts by simp
  then show ?thesis
    using adjust_out_of_range_noop [of afterOptimize bench 1] by simp
qed

end
